theory Spec2Isabelle
  imports Complex_Main "HOL-Library.AList" "HOL-Library.Log_Nat"
begin

section \<open>Check orchestration of the FeedChecker renderer\<close>

text \<open>
  The development embeds the client-side check orchestration: the choice of transport in
  \<^verbatim>\<open>handleSubmit\<close> (\<^verbatim>\<open>renderer/src/pages/Home.tsx\<close>), the upload progress estimator of
  \<^verbatim>\<open>uploadWithProgress\<close>, the hand-over of the result to the results page, and the methods
  of the class \<^verbatim>\<open>FeedCheckerAPI\<close> (the services module): the server-push check, the
  job poller and the plain request/response endpoints.
\<close>

subsection \<open>The form state read by \<^verbatim>\<open>handleSubmit\<close>\<close>

datatype source_type = SrcUrl | SrcFile

datatype feed_type = Xml | Delta

text \<open>A browser \<^verbatim>\<open>File\<close>: its name and its size in bytes.\<close>

record js_file =
  fileName :: string
  fileSize :: nat

text \<open>
  The \<^verbatim>\<open>useState\<close> cells of the component \<^verbatim>\<open>Home\<close> that the submission reads.
  \<^verbatim>\<open>feedFile\<close> is \<^verbatim>\<open>File | null\<close>.
\<close>

record form =
  siteId :: string
  feedUrl :: string
  feedFile :: "js_file option"
  sourceType :: source_type
  feedType :: feed_type
  delimiter :: string
  useAsyncMode :: bool

text \<open>The four calls among which \<^verbatim>\<open>handleSubmit\<close> chooses (lines 204 to 265).\<close>

datatype strategy =
    CheckFeedWithPolling     \<comment> \<open>\<^verbatim>\<open>feedCheckerAPI.checkFeedWithPolling\<close>: the job poller\<close>
  | UploadWithProgress       \<comment> \<open>\<^verbatim>\<open>uploadWithProgress\<close>: one request, upload progress events\<close>
  | CheckFeedWithProgress    \<comment> \<open>\<^verbatim>\<open>feedCheckerAPI.checkFeedWithProgress\<close>: the event stream\<close>
  | CheckFeed                \<comment> \<open>\<^verbatim>\<open>feedCheckerAPI.checkFeed\<close>: one request, no progress\<close>

text \<open>
  \<^verbatim>\<open>const shouldUseAsync = useAsyncMode || (sourceType === "file" && feedFile &&
  feedFile.size > 50 * 1024 * 1024)\<close>; a \<^verbatim>\<open>File\<close> object is truthy, \<^verbatim>\<open>null\<close> is not.
\<close>

definition shouldUseAsync :: "form \<Rightarrow> bool" where
  "shouldUseAsync f =
     (useAsyncMode f \<or>
      (sourceType f = SrcFile \<and>
       (case feedFile f of None \<Rightarrow> False | Some fl \<Rightarrow> fileSize fl > 50 * 1024 * 1024)))"

definition selectStrategy :: "form \<Rightarrow> strategy" where
  "selectStrategy f =
     (if shouldUseAsync f then CheckFeedWithPolling
      else if sourceType f = SrcFile \<and> feedFile f \<noteq> None then UploadWithProgress
      else if feedType f = Delta then CheckFeed
      else CheckFeedWithProgress)"

text \<open>
  The guards in front of the choice (lines 184 to 192): a URL source needs a non-empty URL
  and a file source needs a chosen file; otherwise \<^verbatim>\<open>handleSubmit\<close> returns before any
  strategy is chosen.
\<close>

definition sourcePresent :: "form \<Rightarrow> bool" where
  "sourcePresent f =
     (\<not> (sourceType f = SrcUrl \<and> feedUrl f = []) \<and>
      \<not> (sourceType f = SrcFile \<and> feedFile f = None))"

text \<open>The size of the file of the request, when the source is a file.\<close>

definition sourceFileSize :: "form \<Rightarrow> nat option" where
  "sourceFileSize f =
     (if sourceType f = SrcFile then map_option fileSize (feedFile f) else None)"

subsection \<open>JavaScript values\<close>

text \<open>
  Values read from the wire (\<^verbatim>\<open>JSON.parse\<close>, \<^verbatim>\<open>response.json()\<close>) and \<^verbatim>\<open>undefined\<close>,
  which a read of a missing property yields. Numbers are restricted to the integers (the
  counters, percentages and HTTP status codes the orchestration reads); an object is the
  list of its own properties, each key once.
\<close>

datatype jsval =
    Undefined
  | Null
  | Bool bool
  | Num int
  | Str string
  | Arr "jsval list"
  | Obj "(string \<times> jsval) list"

text \<open>The truth value JavaScript gives a value in \<^verbatim>\<open>if\<close>, \<^verbatim>\<open>&&\<close>, \<^verbatim>\<open>||\<close> and \<^verbatim>\<open>?:\<close>.\<close>

fun truthy :: "jsval \<Rightarrow> bool" where
  "truthy Undefined = False"
| "truthy Null = False"
| "truthy (Bool b) = b"
| "truthy (Num n) = (n \<noteq> 0)"
| "truthy (Str s) = (s \<noteq> [])"
| "truthy (Arr xs) = True"
| "truthy (Obj kvs) = True"

text \<open>A property read \<^verbatim>\<open>v.k\<close> throws a \<^verbatim>\<open>TypeError\<close> exactly when \<^verbatim>\<open>v\<close> is nullish.\<close>

fun nullish :: "jsval \<Rightarrow> bool" where
  "nullish Undefined = True"
| "nullish Null = True"
| "nullish v = False"

text \<open>
  The value of \<^verbatim>\<open>v.k\<close> for a \<^verbatim>\<open>v\<close> that is not nullish: the property of an object, and
  \<^verbatim>\<open>undefined\<close> when it is missing. The keys read by the orchestration (\<^verbatim>\<open>type\<close>,
  \<^verbatim>\<open>message\<close>, \<^verbatim>\<open>result\<close>, \<^verbatim>\<open>status\<close>, ...) are no properties of strings, numbers,
  booleans or arrays, so the read of such a key from one of them is \<^verbatim>\<open>undefined\<close> too.
\<close>

fun getProp :: "jsval \<Rightarrow> string \<Rightarrow> jsval" where
  "getProp (Obj kvs) k = (case map_of kvs k of Some v \<Rightarrow> v | None \<Rightarrow> Undefined)"
| "getProp v k = Undefined"

text \<open>\<^verbatim>\<open>typeof v === 'object'\<close> holds of \<^verbatim>\<open>null\<close>, of arrays and of objects.\<close>

fun typeofObject :: "jsval \<Rightarrow> bool" where
  "typeofObject Null = True"
| "typeofObject (Arr xs) = True"
| "typeofObject (Obj kvs) = True"
| "typeofObject v = False"

subsection \<open>Strings\<close>

text \<open>
  A text whose characters the code looks at (the body of a response) is a list of UTF-16
  code units, numbers below 65536, as \<^verbatim>\<open>trim\<close>, \<^verbatim>\<open>toLowerCase\<close> and \<^verbatim>\<open>startsWith\<close>
  see it; \<^verbatim>\<open>codeUnits\<close> gives the code units of an ASCII literal. A header value and
  the message of a platform error are compared with ASCII literals only and stay lists
  of characters.
\<close>

type_synonym js_string = "nat list"

definition codeUnits :: "string \<Rightarrow> js_string" where
  "codeUnits s = map of_char s"

text \<open>
  The white space \<^verbatim>\<open>String.prototype.trim\<close> removes: the code points WhiteSpace (TAB,
  VT, FF, U+FEFF and the space separators U+0020, U+00A0, U+1680, U+2000 to U+200A,
  U+202F, U+205F, U+3000) and LineTerminator (LF, CR, U+2028, U+2029) of ECMAScript.
\<close>

definition isWhiteSpace :: "nat \<Rightarrow> bool" where
  "isWhiteSpace c =
     ((9 \<le> c \<and> c \<le> 13) \<or> c = 32 \<or> c = 160 \<or> c = 5760 \<or> (8192 \<le> c \<and> c \<le> 8202)
      \<or> c = 8232 \<or> c = 8233 \<or> c = 8239 \<or> c = 8287 \<or> c = 12288 \<or> c = 65279)"

definition trim :: "js_string \<Rightarrow> js_string" where
  "trim s = rev (dropWhile isWhiteSpace (rev (dropWhile isWhiteSpace s)))"

text \<open>
  \<^verbatim>\<open>toLowerCase\<close> on the letters A to Z. The code compares the lowered text with the
  ASCII markers \<^verbatim>\<open><!doctype\<close> and \<^verbatim>\<open><html\<close> only; the two code points outside ASCII whose
  lower case begins with an ASCII letter (U+0130 and U+212A) give \<^verbatim>\<open>i\<close> and \<^verbatim>\<open>k\<close>, which
  are in neither marker, so the comparison sees no other lowering than this one.
\<close>

definition lowerUnit :: "nat \<Rightarrow> nat" where
  "lowerUnit c = (if 65 \<le> c \<and> c \<le> 90 then c + 32 else c)"

definition toLowerCase :: "js_string \<Rightarrow> js_string" where
  "toLowerCase s = map lowerUnit s"

definition startsWith :: "'a list \<Rightarrow> 'a list \<Rightarrow> bool" where
  "startsWith s pre = (take (length pre) s = pre)"

fun includesStr :: "string \<Rightarrow> string \<Rightarrow> bool" where
  "includesStr [] sub = (sub = [])"
| "includesStr (c # cs) sub = (startsWith (c # cs) sub \<or> includesStr cs sub)"

definition substring0 :: "js_string \<Rightarrow> nat \<Rightarrow> js_string" where
  "substring0 s n = take n s"

subsection \<open>Message texts and thrown errors\<close>

text \<open>
  The string literals of the sources are user-facing Russian sentences; each is a
  constant here, named after what it says.
\<close>

datatype fixed_text =
    StartingDownload              \<comment> \<open>status text of the event \<^verbatim>\<open>start\<close>\<close>
  | DownloadingFeed               \<comment> \<open>status text of the event \<^verbatim>\<open>downloading\<close>\<close>
  | ProcessingData                \<comment> \<open>status text of the event \<^verbatim>\<open>processing\<close>\<close>
  | FetchingResult                \<comment> \<open>progress text before the result request of the poller\<close>
  | FeedCheckFailed               \<comment> \<open>"error while checking the feed"\<close>
  | FeedDownloadFailed            \<comment> \<open>"error while downloading the feed"\<close>
  | FeedProcessingFailed          \<comment> \<open>"error while processing the feed"\<close>
  | ResponseProcessingFailed      \<comment> \<open>"error while processing the server's response"\<close>
  | ServerConnectionFailed        \<comment> \<open>"error of the connection to the server"\<close>
  | HtmlInsteadOfData             \<comment> \<open>"the server returned an HTML page instead of data ..."\<close>
  | Unavailable502                \<comment> \<open>"server unavailable (502 Bad Gateway). The backend does not answer."\<close>
  | Unavailable502CheckLogs       \<comment> \<open>the same sentence followed by "check the backend's logs."\<close>
  | CannotConnect                 \<comment> \<open>"could not connect to the server"\<close>
  | CannotConnectRunning          \<comment> \<open>"... check that the backend is running."\<close>
  | CannotConnectRunningReachable \<comment> \<open>"... check that the backend is running and reachable."\<close>
  | CannotConnectFetchingResult   \<comment> \<open>"could not connect to the server while fetching the result"\<close>
  | UnknownError                  \<comment> \<open>"unknown error", in place of an empty \<^verbatim>\<open>statusText\<close>\<close>
  | UnknownErrorFetchingResult    \<comment> \<open>"unknown error while fetching the result"\<close>
  | JobNotFound                   \<comment> \<open>"job not found"\<close>
  | ResultNotFound                \<comment> \<open>"result not found"\<close>
  | CouldNotGetResult             \<comment> \<open>"could not get the result"\<close>
  | ResultTooLarge                \<comment> \<open>"the result of the check is too large to be saved ..."\<close>
  | CheckErrorOccurred            \<comment> \<open>"an error occurred while checking the feed"\<close>
  | ExcelExportFailed             \<comment> \<open>"error while exporting to Excel"\<close>
  | ResponseParseFailed           \<comment> \<open>"error while parsing the server's response"\<close>
  | UploadNetworkFailed           \<comment> \<open>"network error while uploading the file"\<close>
  | UploadAborted                 \<comment> \<open>"upload cancelled"\<close>

text \<open>
  What the code passes where a text is expected: a literal, a value taken from the wire
  as it is, or one of the template strings built from a response.
\<close>

datatype js_text =
    Lit fixed_text
  | Val jsval
  | StatusLine nat js_text              \<comment> \<open>"error \<^verbatim>\<open>status\<close>: \<^verbatim>\<open>statusText\<close>"\<close>
  | StatusLineBody nat js_text js_string   \<comment> \<open>the same followed by "response of the server: ..."\<close>
  | UnexpectedFormat string          \<comment> \<open>"the server returned an unexpected format: \<^verbatim>\<open>contentType\<close>"\<close>
  | UnknownThrown jsval              \<comment> \<open>"unknown error: " and the thrown value\<close>
  | Stringified jsval                \<comment> \<open>\<^verbatim>\<open>JSON.stringify\<close> of the value\<close>
  | SyntaxMessage                    \<comment> \<open>the engine's message of a JSON syntax error\<close>

text \<open>\<^verbatim>\<open>v || "literal"\<close>\<close>

definition orLit :: "jsval \<Rightarrow> fixed_text \<Rightarrow> js_text" where
  "orLit v l = (if truthy v then Val v else Lit l)"

text \<open>\<^verbatim>\<open>statusText || "unknown error"\<close>\<close>

definition statusTextOr :: "string \<Rightarrow> js_text" where
  "statusTextOr st = (if st = [] then Lit UnknownError else Val (Str st))"

text \<open>
  Thrown values. \<^verbatim>\<open>Error a d\<close> is \<^verbatim>\<open>new Error(a)\<close> with the property
  \<^verbatim>\<open>downloadError\<close> set to \<^verbatim>\<open>d\<close> (\<^verbatim>\<open>Undefined\<close> when the code never assigns it); the
  other errors are those of the platform: the \<^verbatim>\<open>TypeError\<close> of a failed \<^verbatim>\<open>fetch\<close> or of
  a property read of \<^verbatim>\<open>null\<close>, the \<^verbatim>\<open>SyntaxError\<close> of \<^verbatim>\<open>JSON.parse\<close>, the
  \<^verbatim>\<open>DOMException\<close> (name, message) of the session storage, and a thrown value that is
  no \<^verbatim>\<open>Error\<close> at all.
\<close>

datatype js_error =
    Error js_text jsval
  | TypeError string
  | SyntaxError
  | DOMException string string
  | ThrownValue jsval

text \<open>\<^verbatim>\<open>error instanceof TypeError && error.message.includes("Failed to fetch")\<close>\<close>

fun failedToFetch :: "js_error \<Rightarrow> bool" where
  "failedToFetch (TypeError m) = includesStr m ''Failed to fetch''"
| "failedToFetch e = False"

text \<open>\<^verbatim>\<open>error instanceof Error\<close>\<close>

fun instanceofError :: "js_error \<Rightarrow> bool" where
  "instanceofError (ThrownValue v) = False"
| "instanceofError e = True"


text \<open>The state of a promise; \<^verbatim>\<open>resolve\<close> and \<^verbatim>\<open>reject\<close> act on a pending promise only.\<close>

datatype outcome = Pending | Resolved jsval | Rejected js_error

definition settle :: "outcome \<Rightarrow> outcome \<Rightarrow> outcome" where
  "settle old new = (if old = Pending then new else old)"

subsection \<open>The server-push check: \<^verbatim>\<open>checkFeedWithProgress\<close>\<close>

text \<open>
  The calls of the two callbacks \<^verbatim>\<open>onStatusChange(text)\<close> and
  \<^verbatim>\<open>onProgress(loaded, total, percentage)\<close>, in the order in which they are made.
\<close>

datatype stream_call = StatusChange js_text | ProgressCall jsval jsval jsval

text \<open>
  The state of one run: whether \<^verbatim>\<open>eventSource.close()\<close> was called, the promise the
  method returns, and the callback calls so far.
\<close>

record stream =
  closed :: bool
  promise :: outcome
  calls :: "stream_call list"

definition initialStream :: stream where
  "initialStream = \<lparr>closed = False, promise = Pending, calls = []\<rparr>"

text \<open>
  The \<^verbatim>\<open>catch\<close> block of the message handler (lines 412 to 415): close, then reject with
  the fixed response-processing text.
\<close>

definition failProcessing :: "stream \<Rightarrow> stream" where
  "failProcessing st =
     st\<lparr>closed := True,
        promise := settle (promise st) (Rejected (Error (Lit ResponseProcessingFailed) Undefined))\<rparr>"

text \<open>The object assigned to \<^verbatim>\<open>downloadError\<close> in the case \<^verbatim>\<open>error\<close> (lines 398 to 405).\<close>

definition streamDownloadError :: "jsval \<Rightarrow> jsval" where
  "streamDownloadError data =
     Obj [(''error_type'', Str ''DOWNLOAD_ERROR''),
          (''error_code'', getProp data ''error_code''),
          (''message'', getProp data ''message''),
          (''url'', getProp data ''url''),
          (''http_status'', getProp data ''http_status''),
          (''details'', getProp data ''details'')]"

text \<open>
  \<^verbatim>\<open>eventSource.onmessage\<close> (lines 367 to 416). The argument is the outcome of
  \<^verbatim>\<open>JSON.parse(event.data)\<close>: \<^verbatim>\<open>None\<close> when it throws. The read \<^verbatim>\<open>data.type\<close> of a
  nullish \<^verbatim>\<open>data\<close> throws inside the same \<^verbatim>\<open>try\<close>; a type that matches no
  \<^verbatim>\<open>case\<close> leaves the state as it is. The two callbacks are those \<^verbatim>\<open>handleSubmit\<close>
  passes, which set state cells and do not throw.
\<close>

definition onmessage :: "stream \<Rightarrow> jsval option \<Rightarrow> stream" where
  "onmessage st parsed =
     (case parsed of
        None \<Rightarrow> failProcessing st
      | Some data \<Rightarrow>
          if nullish data then failProcessing st
          else if getProp data ''type'' = Str ''start'' then
            st\<lparr>calls := calls st @ [StatusChange (orLit (getProp data ''message'') StartingDownload)]\<rparr>
          else if getProp data ''type'' = Str ''downloading'' then
            st\<lparr>calls := calls st @ [StatusChange (orLit (getProp data ''message'') DownloadingFeed)]\<rparr>
          else if getProp data ''type'' = Str ''progress'' then
            st\<lparr>calls := calls st @
                 [ProgressCall (getProp data ''loaded'') (getProp data ''total'')
                    (getProp data ''percentage'')]\<rparr>
          else if getProp data ''type'' = Str ''processing'' then
            st\<lparr>calls := calls st @ [StatusChange (orLit (getProp data ''message'') ProcessingData)]\<rparr>
          else if getProp data ''type'' = Str ''complete'' then
            st\<lparr>closed := True,
               promise := settle (promise st) (Resolved (getProp data ''result''))\<rparr>
          else if getProp data ''type'' = Str ''error'' then
            st\<lparr>closed := True,
               promise := settle (promise st)
                 (Rejected
                   (if getProp data ''error_type'' = Str ''download_error''
                    then Error (Val (getProp data ''message'')) (streamDownloadError data)
                    else Error (orLit (getProp data ''message'') FeedCheckFailed) Undefined))\<rparr>
          else st)"

text \<open>\<^verbatim>\<open>eventSource.onerror\<close> (lines 418 to 421).\<close>

definition onerror :: "stream \<Rightarrow> stream" where
  "onerror st =
     st\<lparr>closed := True,
        promise := settle (promise st) (Rejected (Error (Lit ServerConnectionFailed) Undefined))\<rparr>"

text \<open>
  What the event source delivers: a message (with the outcome of parsing its data) or a
  transport error. A closed event source delivers nothing more.
\<close>

datatype stream_event = Message "jsval option" | TransportError

fun deliver :: "stream \<Rightarrow> stream_event \<Rightarrow> stream" where
  "deliver st (Message parsed) = onmessage st parsed"
| "deliver st TransportError = onerror st"

fun runStream :: "stream \<Rightarrow> stream_event list \<Rightarrow> stream" where
  "runStream st [] = st"
| "runStream st (e # es) = (if closed st then st else runStream (deliver st e) es)"

text \<open>An event object of the given type.\<close>

definition hasType :: "jsval \<Rightarrow> string \<Rightarrow> bool" where
  "hasType data t = (\<not> nullish data \<and> getProp data ''type'' = Str t)"

subsection \<open>Responses of \<^verbatim>\<open>fetch\<close>\<close>

text \<open>
  What the methods read of a \<^verbatim>\<open>Response\<close>: \<^verbatim>\<open>status\<close>, \<^verbatim>\<open>statusText\<close>, \<^verbatim>\<open>ok\<close>, the
  header \<^verbatim>\<open>content-type\<close> (\<^verbatim>\<open>None\<close> when \<^verbatim>\<open>headers.get\<close> gives \<^verbatim>\<open>null\<close>), the text of the
  body, and what \<^verbatim>\<open>JSON.parse\<close> makes of that text (\<^verbatim>\<open>None\<close> when it throws), which is
  also what \<^verbatim>\<open>response.json()\<close> yields. \<^verbatim>\<open>hasBody\<close> tells whether the response has a
  body at all: once a body has been read, \<^verbatim>\<open>response.clone()\<close> throws a \<^verbatim>\<open>TypeError\<close>.
\<close>

record response =
  status :: nat
  statusText :: string
  ok :: bool
  contentType :: "string option"
  bodyText :: js_string
  bodyJson :: "jsval option"
  hasBody :: bool

text \<open>\<^verbatim>\<open>fetch\<close> resolves with a response or rejects with a thrown value.\<close>

type_synonym fetched = "js_error + response"

text \<open>\<^verbatim>\<open>response.headers.get("content-type") || ""\<close>\<close>

definition contentTypeOf :: "response \<Rightarrow> string" where
  "contentTypeOf r = (case contentType r of None \<Rightarrow> [] | Some c \<Rightarrow> c)"

text \<open>\<^verbatim>\<open>contentType.includes("application/json")\<close>\<close>

definition isJson :: "response \<Rightarrow> bool" where
  "isJson r = includesStr (contentTypeOf r) ''application/json''"

text \<open>\<^verbatim>\<open>text.trim().startsWith("<!") || text.trim().startsWith("<html")\<close>\<close>

definition looksLikeHtml :: "js_string \<Rightarrow> bool" where
  "looksLikeHtml t =
     (startsWith (trim t) (codeUnits ''<!'') \<or> startsWith (trim t) (codeUnits ''<html''))"

text \<open>
  \<^verbatim>\<open>text.trim().toLowerCase().startsWith('<!doctype') ||
  text.trim().toLowerCase().startsWith('<html')\<close>, the test of the error branch of
  \<^verbatim>\<open>checkFeed\<close>.
\<close>

definition looksLikeHtmlLower :: "js_string \<Rightarrow> bool" where
  "looksLikeHtmlLower t =
     (startsWith (toLowerCase (trim t)) (codeUnits ''<!doctype'')
      \<or> startsWith (toLowerCase (trim t)) (codeUnits ''<html''))"

text \<open>
  The \<^verbatim>\<open>catch\<close> at the end of a method: a failed \<^verbatim>\<open>fetch\<close> becomes an error with the
  method's connection text, anything else is thrown again.
\<close>

definition connectionCatch :: "fixed_text \<Rightarrow> js_error \<Rightarrow> js_error" where
  "connectionCatch l e = (if failedToFetch e then Error (Lit l) Undefined else e)"

text \<open>The \<^verbatim>\<open>TypeError\<close> of a property read of \<^verbatim>\<open>null\<close> or \<^verbatim>\<open>undefined\<close>.\<close>

definition nullRead :: js_error where
  "nullRead = TypeError ''Cannot read properties of null''"

text \<open>
  The block that several methods run for a response that is not OK:
  \<^verbatim>\<open>try { const error = await response.json(); throw new Error(error.detail || ...) }
  catch (jsonError) { const text = await response.clone().text().catch(() => "");
  throw new Error(`... ${response.status}: ${response.statusText || ...}`) }\<close>.
  Whatever the \<^verbatim>\<open>try\<close> throws, its own error included, is caught; the body has been
  read by then, so \<^verbatim>\<open>clone()\<close> throws unless the response has no body.
\<close>

definition notOkError :: "response \<Rightarrow> js_error" where
  "notOkError r =
     (if hasBody r then TypeError ''Response body is already used''
      else Error (StatusLine (status r) (statusTextOr (statusText r))) Undefined)"

subsection \<open>The job endpoints: \<^verbatim>\<open>getJobStatus\<close> and \<^verbatim>\<open>deleteJob\<close>\<close>

text \<open>
  \<^verbatim>\<open>getJobStatus\<close> (lines 548 to 633), from the outcome of its \<^verbatim>\<open>fetch\<close>. The calls of
  \<^verbatim>\<open>logErrorDetails\<close> and \<^verbatim>\<open>console.log\<close>, and the properties \<^verbatim>\<open>response\<close> and
  \<^verbatim>\<open>responseText\<close> that errors carry for them, have no part in the outcome and are left
  out, here and below.
\<close>

definition getJobStatusResponse :: "response \<Rightarrow> js_error + jsval" where
  "getJobStatusResponse r =
     (if \<not> isJson r then
        if looksLikeHtml (bodyText r) then Inl (Error (Lit Unavailable502CheckLogs) Undefined)
        else (case bodyJson r of
                Some v \<Rightarrow> Inr v
              | None \<Rightarrow> Inl (Error (UnexpectedFormat (contentTypeOf r)) Undefined))
      else if \<not> ok r then
        if status r = 404 then Inl (Error (Lit JobNotFound) Undefined)
        else Inl (notOkError r)
      else (case bodyJson r of Some v \<Rightarrow> Inr v | None \<Rightarrow> Inl SyntaxError))"

definition getJobStatus :: "fetched \<Rightarrow> js_error + jsval" where
  "getJobStatus f =
     (case f of
        Inl e \<Rightarrow> Inl (connectionCatch CannotConnectRunning e)
      | Inr r \<Rightarrow>
          (case getJobStatusResponse r of
             Inl e \<Rightarrow> Inl (connectionCatch CannotConnectRunning e)
           | Inr v \<Rightarrow> Inr v))"

text \<open>\<^verbatim>\<open>deleteJob\<close> (lines 638 to 674): it returns nothing or throws.\<close>

definition deleteJobResponse :: "response \<Rightarrow> js_error + unit" where
  "deleteJobResponse r =
     (if \<not> isJson r then
        if looksLikeHtml (bodyText r) then Inl (Error (Lit Unavailable502) Undefined)
        else Inr ()
      else if \<not> ok r then Inl (notOkError r)
      else Inr ())"

definition deleteJob :: "fetched \<Rightarrow> js_error + unit" where
  "deleteJob f =
     (case f of
        Inl e \<Rightarrow> Inl (connectionCatch CannotConnect e)
      | Inr r \<Rightarrow>
          (case deleteJobResponse r of
             Inl e \<Rightarrow> Inl (connectionCatch CannotConnect e)
           | Inr u \<Rightarrow> Inr u))"

subsection \<open>The job poller: \<^verbatim>\<open>checkFeedWithPolling\<close>\<close>

text \<open>A request for a job: its id, and whether \<^verbatim>\<open>?include_result=true\<close> is appended.\<close>

datatype request = GetJob string bool

text \<open>
  The state of the poller: whether \<^verbatim>\<open>clearInterval(pollTimer)\<close> was called, the promise,
  the calls \<^verbatim>\<open>onProgress(progress, message)\<close> and the requests sent, in order.
\<close>

record poller =
  timerCleared :: bool
  pollPromise :: outcome
  progressCalls :: "(jsval \<times> js_text) list"
  requests :: "request list"


text \<open>
  \<^verbatim>\<open>if (finalData.result) resolve(finalData.result) else reject(new Error(...))\<close> for a
  \<^verbatim>\<open>finalData\<close> that is not nullish.
\<close>

definition resultOrNotFound :: "jsval \<Rightarrow> outcome" where
  "resultOrNotFound finalData =
     (if truthy (getProp finalData ''result'') then Resolved (getProp finalData ''result'')
      else Rejected (Error (Lit ResultNotFound) Undefined))"

text \<open>
  The request for the result (lines 708 to 760), from the outcome of its \<^verbatim>\<open>fetch\<close>: how
  the promise is settled. In the branch of a content type that is not JSON the read
  \<^verbatim>\<open>finalData.result\<close> sits inside the \<^verbatim>\<open>try\<close> around \<^verbatim>\<open>JSON.parse\<close>, so a nullish
  \<^verbatim>\<open>finalData\<close> ends in the same \<^verbatim>\<open>catch\<close> as a text that does not parse.
\<close>

definition fetchResult :: "fetched \<Rightarrow> outcome" where
  "fetchResult f =
     (case f of
        Inl fetchError \<Rightarrow>
          Rejected
            (if failedToFetch fetchError then Error (Lit CannotConnectFetchingResult) Undefined
             else if instanceofError fetchError then fetchError
             else Error (Lit UnknownErrorFetchingResult) Undefined)
      | Inr finalStatus \<Rightarrow>
          if \<not> isJson finalStatus then
            if looksLikeHtml (bodyText finalStatus)
            then Rejected (Error (Lit Unavailable502) Undefined)
            else (case bodyJson finalStatus of
                    None \<Rightarrow> Rejected (Error (UnexpectedFormat (contentTypeOf finalStatus)) Undefined)
                  | Some finalData \<Rightarrow>
                      if nullish finalData
                      then Rejected (Error (UnexpectedFormat (contentTypeOf finalStatus)) Undefined)
                      else resultOrNotFound finalData)
          else if \<not> ok finalStatus then Rejected (Error (Lit CouldNotGetResult) Undefined)
          else (case bodyJson finalStatus of
                  None \<Rightarrow> Rejected SyntaxError
                | Some finalData \<Rightarrow>
                    if nullish finalData then Rejected nullRead
                    else resultOrNotFound finalData))"

text \<open>The error a failed job is rejected with (lines 764 to 779), from \<^verbatim>\<open>status.error\<close>.\<close>

definition failedJobError :: "jsval \<Rightarrow> js_error" where
  "failedJobError err =
     (if truthy err \<and> typeofObject err then
        if getProp err ''error_type'' = Str ''download_error''
        then Error (Val (getProp err ''message'')) err
        else Error (if truthy (getProp err ''message'') then Val (getProp err ''message'')
                    else Stringified err) Undefined
      else Error (if truthy err then Val err else Lit FeedProcessingFailed) Undefined)"

text \<open>
  One run of the callback of \<^verbatim>\<open>setInterval\<close> (lines 697 to 789), from the outcome of the
  \<^verbatim>\<open>fetch\<close> of \<^verbatim>\<open>getJobStatus\<close> and the outcome of the \<^verbatim>\<open>fetch\<close> of the result, which is
  consulted only if the run sends that request.
\<close>

definition pollTick :: "string \<Rightarrow> fetched \<Rightarrow> fetched \<Rightarrow> poller \<Rightarrow> poller" where
  "pollTick jobId statusFetch finalFetch p0 =
     (let p = p0\<lparr>requests := requests p0 @ [GetJob jobId False]\<rparr> in
      case getJobStatus statusFetch of
        Inl e \<Rightarrow> p\<lparr>timerCleared := True, pollPromise := settle (pollPromise p) (Rejected e)\<rparr>
      | Inr st \<Rightarrow>
          if nullish st
          then p\<lparr>timerCleared := True, pollPromise := settle (pollPromise p) (Rejected nullRead)\<rparr>
          else
            let p1 = p\<lparr>progressCalls := progressCalls p @
                         [(getProp st ''progress'', Val (getProp st ''message''))]\<rparr> in
            if getProp st ''status'' = Str ''completed''
               \<or> getProp st ''status'' = Str ''completed_with_errors''
            then
              p1\<lparr>timerCleared := True,
                 progressCalls := progressCalls p1 @ [(Num 100, Lit FetchingResult)],
                 requests := requests p1 @ [GetJob jobId True],
                 pollPromise := settle (pollPromise p1) (fetchResult finalFetch)\<rparr>
            else if getProp st ''status'' = Str ''failed''
            then
              p1\<lparr>timerCleared := True,
                 pollPromise := settle (pollPromise p1)
                   (Rejected (failedJobError (getProp st ''error'')))\<rparr>
            else p1)"

text \<open>
  The interval: one run after the other, each with the outcomes of its requests, until
  the timer is cleared. Each run is taken to end before the next one begins.
\<close>

fun runPoller :: "string \<Rightarrow> poller \<Rightarrow> (fetched \<times> fetched) list \<Rightarrow> poller" where
  "runPoller jobId p [] = p"
| "runPoller jobId p (t # ts) =
     (if timerCleared p then p else runPoller jobId (pollTick jobId (fst t) (snd t) p) ts)"

subsection \<open>The plain endpoints\<close>

text \<open>
  The error \<^verbatim>\<open>checkFeed\<close> throws for a download error reported in \<^verbatim>\<open>detail\<close> (lines 176
  to 178): the whole \<^verbatim>\<open>detail\<close> becomes its \<^verbatim>\<open>downloadError\<close>.
\<close>

definition directDownloadError :: "jsval \<Rightarrow> js_error" where
  "directDownloadError detail = Error (orLit (getProp detail ''message'') FeedDownloadFailed) detail"

text \<open>
  \<^verbatim>\<open>typeof detail === 'string' ? detail : (detail?.message || detail || "...")\<close>
\<close>

definition detailMessage :: "jsval \<Rightarrow> js_text" where
  "detailMessage detail =
     (case detail of
        Str s \<Rightarrow> Val (Str s)
      | _ \<Rightarrow>
          if \<not> nullish detail \<and> truthy (getProp detail ''message'')
          then Val (getProp detail ''message'')
          else orLit detail FeedCheckFailed)"

text \<open>
  \<^verbatim>\<open>checkFeed\<close> (lines 111 to 222), from the outcome of its \<^verbatim>\<open>fetch\<close>. In the branch of
  a response that is not OK every value thrown inside the inner \<^verbatim>\<open>try\<close> has a message
  and is thrown again by its \<^verbatim>\<open>catch\<close>.
\<close>

definition checkFeedResponse :: "response \<Rightarrow> js_error + jsval" where
  "checkFeedResponse r =
     (if \<not> ok r then
        if \<not> isJson r then
          if looksLikeHtmlLower (bodyText r) then Inl (Error (Lit HtmlInsteadOfData) Undefined)
          else Inl (Error (StatusLineBody (status r) (statusTextOr (statusText r))
                             (substring0 (bodyText r) 200)) Undefined)
        else
          (case bodyJson r of
             None \<Rightarrow> Inl SyntaxError
           | Some errorData \<Rightarrow>
               if nullish errorData then Inl nullRead
               else if truthy (getProp errorData ''detail'')
                       \<and> (getProp (getProp errorData ''detail'') ''error_type'' = Str ''DOWNLOAD_ERROR''
                            \<or> truthy (getProp (getProp errorData ''detail'') ''error_code''))
               then Inl (directDownloadError (getProp errorData ''detail''))
               else Inl (Error (detailMessage (getProp errorData ''detail'')) Undefined))
      else if \<not> isJson r then
        if looksLikeHtml (bodyText r) then Inl (Error (Lit Unavailable502CheckLogs) Undefined)
        else (case bodyJson r of
                Some v \<Rightarrow> Inr v
              | None \<Rightarrow> Inl (Error (UnexpectedFormat (contentTypeOf r)) Undefined))
      else (case bodyJson r of Some v \<Rightarrow> Inr v | None \<Rightarrow> Inl SyntaxError))"

text \<open>The \<^verbatim>\<open>catch\<close> at the end of \<^verbatim>\<open>checkFeed\<close> (lines 206 to 221).\<close>

definition checkFeedCatch :: "js_error \<Rightarrow> js_error" where
  "checkFeedCatch e =
     (if failedToFetch e then Error (Lit CannotConnectRunningReachable) Undefined
      else if instanceofError e then e
      else (case e of ThrownValue v \<Rightarrow> Error (UnknownThrown v) Undefined | _ \<Rightarrow> e))"

definition checkFeed :: "fetched \<Rightarrow> js_error + jsval" where
  "checkFeed f =
     (case f of
        Inl e \<Rightarrow> Inl (checkFeedCatch e)
      | Inr r \<Rightarrow>
          (case checkFeedResponse r of
             Inl e \<Rightarrow> Inl (checkFeedCatch e)
           | Inr v \<Rightarrow> Inr v))"

text \<open>
  \<^verbatim>\<open>checkSyntax\<close> (lines 227 to 285), \<^verbatim>\<open>getProblematicOffers\<close> (lines 290 to 350) and
  \<^verbatim>\<open>checkFeedAsync\<close> (lines 474 to 543) have one body; they differ in the text of the
  HTML error and in the text of the connection error.
\<close>

definition jsonEndpointResponse :: "fixed_text \<Rightarrow> response \<Rightarrow> js_error + jsval" where
  "jsonEndpointResponse htmlText r =
     (if \<not> isJson r then
        if looksLikeHtml (bodyText r) then Inl (Error (Lit htmlText) Undefined)
        else (case bodyJson r of
                Some v \<Rightarrow> Inr v
              | None \<Rightarrow> Inl (Error (UnexpectedFormat (contentTypeOf r)) Undefined))
      else if \<not> ok r then Inl (notOkError r)
      else (case bodyJson r of Some v \<Rightarrow> Inr v | None \<Rightarrow> Inl SyntaxError))"

definition jsonEndpoint :: "fixed_text \<Rightarrow> fixed_text \<Rightarrow> fetched \<Rightarrow> js_error + jsval" where
  "jsonEndpoint htmlText connectText f =
     (case f of
        Inl e \<Rightarrow> Inl (connectionCatch connectText e)
      | Inr r \<Rightarrow>
          (case jsonEndpointResponse htmlText r of
             Inl e \<Rightarrow> Inl (connectionCatch connectText e)
           | Inr v \<Rightarrow> Inr v))"

definition checkSyntax :: "fetched \<Rightarrow> js_error + jsval" where
  "checkSyntax = jsonEndpoint Unavailable502 CannotConnect"

definition getProblematicOffers :: "fetched \<Rightarrow> js_error + jsval" where
  "getProblematicOffers = jsonEndpoint Unavailable502 CannotConnect"

definition checkFeedAsync :: "fetched \<Rightarrow> js_error + jsval" where
  "checkFeedAsync = jsonEndpoint Unavailable502CheckLogs CannotConnectRunning"

text \<open>
  \<^verbatim>\<open>exportToExcel\<close> (lines 441 to 468): no \<^verbatim>\<open>try\<close>, no look at the content type. A
  response that is not OK is read as JSON; an OK response is returned as a blob, which
  is its body as it is.
\<close>

definition exportToExcel :: "fetched \<Rightarrow> js_error + js_string" where
  "exportToExcel f =
     (case f of
        Inl e \<Rightarrow> Inl e
      | Inr r \<Rightarrow>
          if \<not> ok r then
            (case bodyJson r of
               None \<Rightarrow> Inl SyntaxError
             | Some error \<Rightarrow>
                 if nullish error then Inl nullRead
                 else Inl (Error (orLit (getProp error ''detail'') ExcelExportFailed) Undefined))
          else Inr (bodyText r))"

subsection \<open>The direct upload: the listeners of \<^verbatim>\<open>uploadWithProgress\<close>\<close>



text \<open>The listeners of \<^verbatim>\<open>error\<close> and \<^verbatim>\<open>abort\<close> (lines 155 to 163).\<close>

definition uploadError :: js_error where
  "uploadError = Error (Lit UploadNetworkFailed) Undefined"

definition uploadAbort :: js_error where
  "uploadAbort = Error (Lit UploadAborted) Undefined"

subsection \<open>The \<^verbatim>\<open>catch\<close> of \<^verbatim>\<open>handleSubmit\<close>\<close>





subsection \<open>Numbers\<close>

text \<open>
  A JavaScript number is a binary64 floating-point value: a finite value, an infinity or
  \<^verbatim>\<open>NaN\<close>. A finite value is the real number it stands for; the sign of a zero is not
  kept.
\<close>

datatype jsnum = Fin real | PosInf | NegInf | NaN


text \<open>\<^verbatim>\<open>x > 0\<close>\<close>

fun positive :: "jsnum \<Rightarrow> bool" where
  "positive (Fin x) = (0 < x)"
| "positive PosInf = True"
| "positive n = False"

definition pow2 :: "int \<Rightarrow> real" where
  "pow2 e = (if 0 \<le> e then 2 ^ nat e else 1 / 2 ^ nat (- e))"

text \<open>The exponent \<^verbatim>\<open>e\<close> with \<^verbatim>\<open>2^e <= x < 2^(e+1)\<close> of a positive real.\<close>

definition binaryExponent :: "real \<Rightarrow> int" where
  "binaryExponent x =
     (if 1 \<le> x then bitlen \<lfloor>x\<rfloor> - 1
      else if x * 2 ^ nat (bitlen \<lfloor>1 / x\<rfloor> - 1) = 1 then - (bitlen \<lfloor>1 / x\<rfloor> - 1)
      else - bitlen \<lfloor>1 / x\<rfloor>)"

text \<open>The nearest integer, a tie going to the even one.\<close>

definition roundHalfEven :: "real \<Rightarrow> int" where
  "roundHalfEven q =
     (if q - of_int \<lfloor>q\<rfloor> < 1 / 2 then \<lfloor>q\<rfloor>
      else if 1 / 2 < q - of_int \<lfloor>q\<rfloor> then \<lfloor>q\<rfloor> + 1
      else if even \<lfloor>q\<rfloor> then \<lfloor>q\<rfloor> else \<lfloor>q\<rfloor> + 1)"

text \<open>
  The binary64 value of a real number, by the rounding of IEEE 754 (to nearest, ties to
  even): 53 significant bits, the least exponent -1022 (below it the values are
  subnormal), and an infinity from \<^verbatim>\<open>2^1024\<close> on.
\<close>

definition roundDouble :: "real \<Rightarrow> jsnum" where
  "roundDouble x =
     (if x = 0 then Fin 0
      else
        let u = pow2 (max (binaryExponent \<bar>x\<bar>) (- 1022) - 52);
            r = of_int (roundHalfEven (\<bar>x\<bar> / u)) * u
        in if pow2 1024 \<le> r then (if 0 < x then PosInf else NegInf)
           else Fin (if 0 < x then r else - r))"

text \<open>The operators \<^verbatim>\<open>-\<close>, \<^verbatim>\<open>/\<close> and \<^verbatim>\<open>*\<close> on numbers: the exact result, rounded.\<close>

fun fsub :: "jsnum \<Rightarrow> jsnum \<Rightarrow> jsnum" where
  "fsub (Fin a) (Fin b) = roundDouble (a - b)"
| "fsub NaN y = NaN"
| "fsub x NaN = NaN"
| "fsub (Fin a) PosInf = NegInf"
| "fsub (Fin a) NegInf = PosInf"
| "fsub PosInf PosInf = NaN"
| "fsub NegInf NegInf = NaN"
| "fsub PosInf y = PosInf"
| "fsub NegInf y = NegInf"

fun fdiv :: "jsnum \<Rightarrow> jsnum \<Rightarrow> jsnum" where
  "fdiv (Fin a) (Fin b) =
     (if b \<noteq> 0 then roundDouble (a / b)
      else if a = 0 then NaN else if 0 < a then PosInf else NegInf)"
| "fdiv NaN y = NaN"
| "fdiv x NaN = NaN"
| "fdiv (Fin a) y = Fin 0"
| "fdiv PosInf (Fin b) = (if 0 \<le> b then PosInf else NegInf)"
| "fdiv NegInf (Fin b) = (if 0 \<le> b then NegInf else PosInf)"
| "fdiv PosInf PosInf = NaN"
| "fdiv PosInf NegInf = NaN"
| "fdiv NegInf PosInf = NaN"
| "fdiv NegInf NegInf = NaN"

fun fmul :: "jsnum \<Rightarrow> jsnum \<Rightarrow> jsnum" where
  "fmul (Fin a) (Fin b) = roundDouble (a * b)"
| "fmul NaN y = NaN"
| "fmul x NaN = NaN"
| "fmul (Fin a) PosInf = (if a = 0 then NaN else if 0 < a then PosInf else NegInf)"
| "fmul (Fin a) NegInf = (if a = 0 then NaN else if 0 < a then NegInf else PosInf)"
| "fmul PosInf (Fin b) = (if b = 0 then NaN else if 0 < b then PosInf else NegInf)"
| "fmul NegInf (Fin b) = (if b = 0 then NaN else if 0 < b then NegInf else PosInf)"
| "fmul PosInf PosInf = PosInf"
| "fmul NegInf NegInf = PosInf"
| "fmul PosInf NegInf = NegInf"
| "fmul NegInf PosInf = NegInf"

text \<open>
  \<^verbatim>\<open>Math.round\<close>: the nearest integer, a half rounded up. Its result is an integer that
  binary64 holds exactly.
\<close>

fun mathRound :: "jsnum \<Rightarrow> jsnum" where
  "mathRound (Fin x) = Fin (of_int \<lfloor>x + 1 / 2\<rfloor>)"
| "mathRound n = n"

subsection \<open>The upload progress estimator of \<^verbatim>\<open>uploadWithProgress\<close>\<close>

text \<open>
  A \<^verbatim>\<open>ProgressEvent\<close> of \<^verbatim>\<open>xhr.upload\<close>: byte counts, which the listener reads as
  numbers.
\<close>

record progress_event =
  lengthComputable :: bool
  loaded :: nat
  total :: nat

text \<open>The interface \<^verbatim>\<open>UploadProgress\<close> given to \<^verbatim>\<open>setUploadProgress\<close>.\<close>

record upload_progress =
  upLoaded :: nat
  upTotal :: nat
  percentage :: jsnum
  speed :: jsnum
  timeRemaining :: jsnum

text \<open>
  The two variables the listener closes over (lines 99 and 100): \<^verbatim>\<open>startTime\<close>, in
  milliseconds as \<^verbatim>\<open>Date.now()\<close> gives it, and \<^verbatim>\<open>startLoaded\<close>.
\<close>

record estimator =
  startTime :: int
  startLoaded :: nat

text \<open>
  The listener of \<^verbatim>\<open>progress\<close> (lines 102 to 124), given the value \<^verbatim>\<open>Date.now()\<close> has
  when it runs: the new values of the two variables and the progress it reports, if any.
\<close>

definition uploadSpeed :: "estimator \<Rightarrow> int \<Rightarrow> progress_event \<Rightarrow> jsnum" where
  "uploadSpeed est currentTime e =
     (let timeElapsed =
            fdiv (fsub (roundDouble (of_int currentTime)) (roundDouble (of_int (startTime est))))
                 (Fin 1000);
          bytesUploaded =
            fsub (roundDouble (real (loaded e))) (roundDouble (real (startLoaded est)))
      in if positive timeElapsed then fdiv bytesUploaded timeElapsed else Fin 0)"

definition uploadTimeRemaining :: "estimator \<Rightarrow> int \<Rightarrow> progress_event \<Rightarrow> jsnum" where
  "uploadTimeRemaining est currentTime e =
     (let remainingBytes = fsub (roundDouble (real (total e))) (roundDouble (real (loaded e)))
      in if positive (uploadSpeed est currentTime e)
         then fdiv remainingBytes (uploadSpeed est currentTime e)
         else Fin 0)"

definition onUploadProgress ::
    "estimator \<Rightarrow> int \<Rightarrow> progress_event \<Rightarrow> estimator \<times> upload_progress option" where
  "onUploadProgress est currentTime e =
     (if lengthComputable e then
        (\<lparr>startTime = currentTime, startLoaded = loaded e\<rparr>,
         Some \<lparr>upLoaded = loaded e, upTotal = total e,
               percentage =
                 mathRound (fmul (fdiv (roundDouble (real (loaded e))) (roundDouble (real (total e))))
                                 (Fin 100)),
               speed = uploadSpeed est currentTime e,
               timeRemaining = uploadTimeRemaining est currentTime e\<rparr>)
      else (est, None))"



subsection \<open>The hand-over of the result in \<^verbatim>\<open>handleSubmit\<close>\<close>

text \<open>
  What \<^verbatim>\<open>sessionStorage.setItem\<close> throws: a \<^verbatim>\<open>DOMException\<close> with a name and a message.
\<close>

record dom_exception =
  excName :: string
  excMessage :: string

text \<open>
  \<^verbatim>\<open>storageError.name === 'QuotaExceededError' || storageError.message?.includes('quota')\<close>
\<close>

definition isQuotaError :: "dom_exception \<Rightarrow> bool" where
  "isQuotaError e = (excName e = ''QuotaExceededError'' \<or> includesStr (excMessage e) ''quota'')"

definition feedTypeName :: "feed_type \<Rightarrow> string" where
  "feedTypeName t = (case t of Xml \<Rightarrow> ''xml'' | Delta \<Rightarrow> ''delta'')"

text \<open>
  The object written under the key \<^verbatim>\<open>feedSource\<close> (lines 404 to 409, again 446 to 451
  and 457 to 462). \<^verbatim>\<open>siteNum\<close> is the number \<^verbatim>\<open>Number(siteId)\<close>.
\<close>

definition feedSource :: "jsval \<Rightarrow> form \<Rightarrow> jsval" where
  "feedSource siteNum f =
     Obj [(''siteId'', siteNum),
          (''feedUrl'', if sourceType f = SrcUrl then Str (feedUrl f) else Null),
          (''fileName'',
             if sourceType f = SrcFile
             then (case feedFile f of None \<Rightarrow> Undefined | Some fl \<Rightarrow> Str (fileName fl))
             else Null),
          (''feedType'', Str (feedTypeName (feedType f)))]"

text \<open>
  The properties an object spread \<^verbatim>\<open>...v\<close> copies. The result of a delta check that
  reaches the hand-over is an object (the checks of lines 372 to 397 let nothing else
  through); the spread of a number, a boolean, \<^verbatim>\<open>null\<close> or \<^verbatim>\<open>undefined\<close> copies nothing.
\<close>

fun ownProperties :: "jsval \<Rightarrow> (string \<times> jsval) list" where
  "ownProperties (Obj kvs) = kvs"
| "ownProperties v = []"

text \<open>
  An object literal assigns its properties from left to right: a key that is already
  there keeps its place and takes the new value.
\<close>

definition assignAll :: "(string \<times> jsval) list \<Rightarrow> (string \<times> jsval) list \<Rightarrow> (string \<times> jsval) list" where
  "assignAll base extra = fold (\<lambda>kv acc. AList.update (fst kv) (snd kv) acc) extra base"

text \<open>\<^verbatim>\<open>minimalResult\<close> (lines 423 to 442).\<close>

definition minimalResult :: "form \<Rightarrow> jsval \<Rightarrow> jsval" where
  "minimalResult f result =
     Obj (assignAll
       [(''site_id'', getProp result ''site_id''),
        (''feed_type'',
           if truthy (getProp result ''feed_type'') then getProp result ''feed_type''
           else Str (feedTypeName (feedType f)))]
       (if feedType f = Xml then
          [(''syntax'', getProp result ''syntax''),
           (''mandatory'',
              if truthy (getProp result ''mandatory'') then
                Obj [(''total_offers'', getProp (getProp result ''mandatory'') ''total_offers''),
                     (''valid_offers'', getProp (getProp result ''mandatory'') ''valid_offers''),
                     (''problems_count'', getProp (getProp result ''mandatory'') ''problems_count''),
                     (''problems_summary'', getProp (getProp result ''mandatory'') ''problems_summary'')]
              else Undefined),
           (''categories'', getProp result ''categories'')]
        else ownProperties result))"

text \<open>
  The two writes of a \<^verbatim>\<open>try\<close> block, under the keys \<^verbatim>\<open>feedCheckResult\<close> and
  \<^verbatim>\<open>feedSource\<close>: the storage as the block leaves it, and the exception if one of the
  writes threw. \<^verbatim>\<open>setItem\<close> is the storage of the browser, a parameter of the model: it
  returns the new storage or throws and leaves the storage as it was.
\<close>

definition writeBoth ::
    "('s \<Rightarrow> string \<Rightarrow> string \<Rightarrow> dom_exception + 's) \<Rightarrow> 's \<Rightarrow> string \<Rightarrow> string
      \<Rightarrow> 's \<times> dom_exception option" where
  "writeBoth setItem st resultString sourceString =
     (case setItem st ''feedCheckResult'' resultString of
        Inl e \<Rightarrow> (st, Some e)
      | Inr st1 \<Rightarrow>
          (case setItem st1 ''feedSource'' sourceString of
             Inl e \<Rightarrow> (st1, Some e)
           | Inr st2 \<Rightarrow> (st2, None)))"

text \<open>A call \<^verbatim>\<open>navigate(path, options)\<close>; the options are \<^verbatim>\<open>Undefined\<close> when none are given.\<close>

datatype navigation = Navigate string jsval

text \<open>
  What the hand-over leaves behind: the storage, the navigation if there was one, and
  the text given to \<^verbatim>\<open>setError\<close> if there was one.
\<close>

record 's handover =
  storage :: 's
  navigated :: "navigation option"
  errorShown :: "js_text option"

text \<open>
  Lines 400 to 475, with the \<^verbatim>\<open>catch\<close> of line 476 for the exception that is thrown
  again (a \<^verbatim>\<open>DOMException\<close> is an \<^verbatim>\<open>Error\<close> without \<^verbatim>\<open>downloadError\<close>, so its message is
  shown). \<^verbatim>\<open>stringify\<close> is \<^verbatim>\<open>JSON.stringify\<close>, a parameter of the model.
\<close>

definition saveAndNavigate ::
    "('s \<Rightarrow> string \<Rightarrow> string \<Rightarrow> dom_exception + 's) \<Rightarrow> (jsval \<Rightarrow> string)
      \<Rightarrow> jsval \<Rightarrow> form \<Rightarrow> jsval \<Rightarrow> 's \<Rightarrow> 's handover" where
  "saveAndNavigate setItem stringify siteNum f result st =
     (case writeBoth setItem st (stringify result) (stringify (feedSource siteNum f)) of
        (st1, None) \<Rightarrow>
          \<lparr>storage = st1, navigated = Some (Navigate ''/results'' Undefined), errorShown = None\<rparr>
      | (st1, Some storageError) \<Rightarrow>
          if isQuotaError storageError then
            (case writeBoth setItem st1 (stringify (minimalResult f result))
                    (stringify (feedSource siteNum f)) of
               (st2, None) \<Rightarrow>
                 \<lparr>storage = st2,
                  navigated = Some (Navigate ''/results''
                    (Obj [(''state'',
                       Obj [(''fullResult'', result),
                            (''feedSource'', feedSource siteNum f)])])),
                  errorShown = None\<rparr>
             | (st2, Some secondError) \<Rightarrow>
                 \<lparr>storage = st2, navigated = None, errorShown = Some (Lit ResultTooLarge)\<rparr>)
          else
            \<lparr>storage = st1, navigated = None,
             errorShown = Some (Val (Str (excMessage storageError)))\<rparr>)"

text \<open>
  A session storage with a quota on the number of characters it holds, for the
  examples: the browser's storage and \<^verbatim>\<open>JSON.stringify\<close> are parameters of
  \<^verbatim>\<open>saveAndNavigate\<close>.
\<close>

record session_storage =
  items :: "(string \<times> string) list"
  quota :: nat

definition storageUsage :: "(string \<times> string) list \<Rightarrow> nat" where
  "storageUsage kvs = sum_list (map (\<lambda>kv. length (fst kv) + length (snd kv)) kvs)"

definition quotaSetItem :: "session_storage \<Rightarrow> string \<Rightarrow> string \<Rightarrow> dom_exception + session_storage" where
  "quotaSetItem st k v =
     (if storageUsage (AList.update k v (items st)) > quota st
      then Inl \<lparr>excName = ''QuotaExceededError'', excMessage = ''The quota has been exceeded.''\<rparr>
      else Inr (st\<lparr>items := AList.update k v (items st)\<rparr>))"

text \<open>
  The serialiser of the examples is \<^verbatim>\<open>JSON.stringify\<close> on the values of the model: a
  property whose value is \<^verbatim>\<open>undefined\<close> is left out, an \<^verbatim>\<open>undefined\<close> element of an array
  is written \<^verbatim>\<open>null\<close>, and \<^verbatim>\<open>undefined\<close> itself is stored as the text \<^verbatim>\<open>undefined\<close>.
\<close>

function natText :: "nat \<Rightarrow> string" where
  "natText n =
     (if n < 10 then [''0123456789'' ! n]
      else natText (n div 10) @ [''0123456789'' ! (n mod 10)])"
  by pat_completeness auto
termination
  by (relation "measure id") auto

declare natText.simps [simp del]

definition intText :: "int \<Rightarrow> string" where
  "intText i = (if i < 0 then CHR ''-'' # natText (nat (- i)) else natText (nat i))"

definition escapeChar :: "char \<Rightarrow> string" where
  "escapeChar c =
     (if c = CHR 0x22 then [CHR 0x5C, CHR 0x22]
      else if c = CHR 0x5C then [CHR 0x5C, CHR 0x5C]
      else if c = CHR 0x08 then [CHR 0x5C, CHR ''b'']
      else if c = CHR 0x09 then [CHR 0x5C, CHR ''t'']
      else if c = CHR 0x0A then [CHR 0x5C, CHR ''n'']
      else if c = CHR 0x0C then [CHR 0x5C, CHR ''f'']
      else if c = CHR 0x0D then [CHR 0x5C, CHR ''r'']
      else if (of_char c :: nat) < 32
        then [CHR 0x5C, CHR ''u'', CHR ''0'', CHR ''0'',
              ''0123456789abcdef'' ! (of_char c div 16), ''0123456789abcdef'' ! (of_char c mod 16)]
      else [c])"

definition quoteText :: "string \<Rightarrow> string" where
  "quoteText s = CHR 0x22 # concat (map escapeChar s) @ [CHR 0x22]"

fun joinComma :: "string list \<Rightarrow> string" where
  "joinComma [] = []"
| "joinComma [x] = x"
| "joinComma (x # y # ys) = x @ CHR '','' # joinComma (y # ys)"

fun jsonText :: "jsval \<Rightarrow> string" where
  "jsonText Undefined = ''undefined''"
| "jsonText Null = ''null''"
| "jsonText (Bool b) = (if b then ''true'' else ''false'')"
| "jsonText (Num n) = intText n"
| "jsonText (Str s) = quoteText s"
| "jsonText (Arr xs) =
     CHR ''['' # joinComma (map (\<lambda>x. if x = Undefined then ''null'' else jsonText x) xs) @ '']''"
| "jsonText (Obj kvs) =
     CHR ''{'' # joinComma (map (\<lambda>kv. quoteText (fst kv) @ CHR '':'' # jsonText (snd kv))
                             (filter (\<lambda>kv. snd kv \<noteq> Undefined) kvs)) @ ''}''"

subsection \<open>Example inputs\<close>

text \<open>
  A submission of an 80 MiB file with the asynchronous mode switched off (the last example
  scenario of the specification).
\<close>

definition bigFileForm :: form where
  "bigFileForm =
     \<lparr>siteId = ''12345'', feedUrl = [],
      feedFile = Some \<lparr>fileName = ''feed.xml'', fileSize = 80 * 1024 * 1024\<rparr>,
      sourceType = SrcFile, feedType = Xml, delimiter = '';'', useAsyncMode = False\<rparr>"

text \<open>
  The events of the two example scenarios of the specification, and an error event that
  is no download error and carries a message of its own.
\<close>

definition startEvent :: jsval where
  "startEvent = Obj [(''type'', Str ''start'')]"

definition downloadingEvent :: jsval where
  "downloadingEvent = Obj [(''type'', Str ''downloading'')]"

definition progressEvent :: jsval where
  "progressEvent =
     Obj [(''type'', Str ''progress''), (''loaded'', Num 500), (''total'', Num 1000),
          (''percentage'', Num 50)]"

definition completeEvent :: jsval where
  "completeEvent =
     Obj [(''type'', Str ''complete''),
          (''result'', Obj [(''site_id'', Num 12345), (''feed_type'', Str ''xml'')])]"






definition oddSent :: progress_event where
  "oddSent = \<lparr>lengthComputable = True, loaded = 23, total = 40\<rparr>"

text \<open>
  A check of an XML feed given by its URL, and a result whose list of offers makes it
  much larger than its summary.
\<close>

definition urlXmlForm :: form where
  "urlXmlForm =
     \<lparr>siteId = ''12345'', feedUrl = ''http://x/feed.xml'', feedFile = None,
      sourceType = SrcUrl, feedType = Xml, delimiter = '';'', useAsyncMode = False\<rparr>"

definition largeResult :: jsval where
  "largeResult =
     Obj [(''site_id'', Num 12345), (''feed_type'', Str ''xml''),
          (''syntax'', Obj [(''valid'', Bool True)]),
          (''problematic_offers'',
             Arr [Str ''offer-0001: no price'', Str ''offer-0002: no picture'',
                  Str ''offer-0003: no category'', Str ''offer-0004: no vendor''])]"











definition jobMissingResponse :: response where
  \<open>jobMissingResponse =
     \<lparr>status = 404, statusText = ''Not Found'', ok = False,
      contentType = Some ''application/json'',
      bodyText = codeUnits ''{"detail":"Job not found"}'',
      bodyJson = Some (Obj [(''detail'', Str ''Job not found'')]), hasBody = True\<rparr>\<close>

definition badGatewayResponse :: response where
  "badGatewayResponse =
     \<lparr>status = 502, statusText = ''Bad Gateway'', ok = False, contentType = Some ''text/html'',
      bodyText = codeUnits ''<html><head><title>502 Bad Gateway</title></head></html>'',
      bodyJson = None, hasBody = True\<rparr>"

definition loginPageResponse :: response where
  "loginPageResponse =
     \<lparr>status = 200, statusText = ''OK'', ok = True, contentType = Some ''text/html'',
      bodyText = codeUnits ''<!DOCTYPE html><html><body>Sign in</body></html>'',
      bodyJson = None, hasBody = True\<rparr>"

text \<open>
  A check of a delta feed given as a file, its result, and the exception of a storage
  whose quota is exceeded.
\<close>

definition deltaFileForm :: form where
  "deltaFileForm =
     \<lparr>siteId = ''12345'', feedUrl = [],
      feedFile = Some \<lparr>fileName = ''delta.csv'', fileSize = 2048\<rparr>,
      sourceType = SrcFile, feedType = Delta, delimiter = '';'', useAsyncMode = False\<rparr>"

definition deltaResult :: jsval where
  "deltaResult =
     Obj [(''feed_type'', Str ''delta''),
          (''parsing'', Obj [(''rows'', Num 3)]),
          (''summary'', Obj [(''available'', Num 2)])]"

definition quotaExceeded :: dom_exception where
  "quotaExceeded =
     \<lparr>excName = ''QuotaExceededError'', excMessage = ''The quota has been exceeded.''\<rparr>"



definition hiddenGatewayResponse :: response where
  "hiddenGatewayResponse =
     \<lparr>status = 502, statusText = ''Bad Gateway'', ok = False, contentType = Some ''text/html'',
      bodyText = 160 # codeUnits ''<html><body>502 Bad Gateway</body></html>'',
      bodyJson = None, hasBody = True\<rparr>"

section \<open>Properties\<close>

text \<open>
  C1. For every request that passes the source guards of \<^verbatim>\<open>handleSubmit\<close>, exactly one
  strategy is chosen, by first match: the job poller when the asynchronous mode is
  requested or the source is a file larger than 50 MiB (whatever the flag says); else the
  upload with progress when the source is a file; else the event stream when the source is
  a URL and the feed type is xml; else (URL and delta feed) the plain request.
\<close>

theorem selectStrategy_first_match:
  assumes "sourcePresent f"
  shows "selectStrategy f =
     (if useAsyncMode f \<or> (\<exists>n. sourceFileSize f = Some n \<and> n > 50 * 1024 * 1024)
        then CheckFeedWithPolling
      else if sourceType f = SrcFile then UploadWithProgress
      else if sourceType f = SrcUrl \<and> feedType f = Xml then CheckFeedWithProgress
      else CheckFeed)"
proof -
  have ft: "feedType f \<noteq> Delta \<longleftrightarrow> feedType f = Xml"
    by (cases "feedType f") simp_all
  have st: "sourceType f \<noteq> SrcFile \<longleftrightarrow> sourceType f = SrcUrl"
    by (cases "sourceType f") simp_all
  show ?thesis
    using assms ft st
    by (cases "feedFile f")
       (auto simp: selectStrategy_def shouldUseAsync_def sourcePresent_def sourceFileSize_def)
qed

theorem selectStrategy_first_match_witness:
  "sourcePresent bigFileForm \<and> \<not> useAsyncMode bigFileForm
   \<and> selectStrategy bigFileForm = CheckFeedWithPolling"
  using selectStrategy_first_match [of bigFileForm]
  by (simp add: bigFileForm_def sourcePresent_def sourceFileSize_def)

subsection \<open>The event stream\<close>

text \<open>
  Progress messages received by an open stream only add their callback calls.
\<close>

lemma runStream_progress:
  assumes "\<not> closed st" and "\<forall>p\<in>set ps. hasType p ''progress''"
  shows "runStream st (map (\<lambda>p. Message (Some p)) ps @ rest) =
         runStream (st\<lparr>calls := calls st @
            map (\<lambda>p. ProgressCall (getProp p ''loaded'') (getProp p ''total'') (getProp p ''percentage'')) ps\<rparr>) rest"
  using assms
proof (induction ps arbitrary: st)
  case Nil
  then show ?case by simp
next
  case (Cons p ps)
  have step: "onmessage st (Some p) = st\<lparr>calls := calls st @
      [ProgressCall (getProp p ''loaded'') (getProp p ''total'') (getProp p ''percentage'')]\<rparr>"
    using Cons.prems(2) by (simp add: onmessage_def hasType_def)
  have "\<not> closed (onmessage st (Some p))" using Cons.prems(1) by (simp add: step)
  moreover have "\<forall>q\<in>set ps. hasType q ''progress''" using Cons.prems(2) by simp
  ultimately have "runStream (onmessage st (Some p)) (map (\<lambda>p. Message (Some p)) ps @ rest) =
      runStream ((onmessage st (Some p))\<lparr>calls := calls (onmessage st (Some p)) @
            map (\<lambda>p. ProgressCall (getProp p ''loaded'') (getProp p ''total'') (getProp p ''percentage'')) ps\<rparr>) rest"
    by (rule Cons.IH)
  then show ?case using Cons.prems(1) by (simp add: step)
qed




text \<open>
  C7. For every received event of type \<^verbatim>\<open>complete\<close> the connection is closed and the
  promise is resolved with the \<^verbatim>\<open>result\<close> of that event; the sequence start,
  downloading, any number of progress events, complete, received by a fresh stream,
  resolves with the \<^verbatim>\<open>result\<close> of its complete event.
\<close>

theorem onmessage_complete_resolves:
  assumes "hasType s ''start''" and "hasType d ''downloading''"
    and "\<forall>p\<in>set ps. hasType p ''progress''" and "hasType c ''complete''"
  shows "onmessage st (Some c) =
           st\<lparr>closed := True, promise := settle (promise st) (Resolved (getProp c ''result''))\<rparr>
       \<and> runStream initialStream (map (\<lambda>e. Message (Some e)) (s # d # ps @ [c])) =
           \<lparr>closed = True, promise = Resolved (getProp c ''result''),
            calls = StatusChange (orLit (getProp s ''message'') StartingDownload)
                  # StatusChange (orLit (getProp d ''message'') DownloadingFeed)
                  # map (\<lambda>p. ProgressCall (getProp p ''loaded'') (getProp p ''total'')
                                (getProp p ''percentage'')) ps\<rparr>"
proof
  show one: "onmessage st (Some c) =
           st\<lparr>closed := True, promise := settle (promise st) (Resolved (getProp c ''result''))\<rparr>" for st
    using assms(4) by (simp add: onmessage_def hasType_def)
  have s1: "onmessage initialStream (Some s) =
      initialStream\<lparr>calls := [StatusChange (orLit (getProp s ''message'') StartingDownload)]\<rparr>"
    using assms(1) by (simp add: onmessage_def hasType_def initialStream_def)
  have s2: "onmessage st (Some d) =
      st\<lparr>calls := calls st @ [StatusChange (orLit (getProp d ''message'') DownloadingFeed)]\<rparr>" for st
    using assms(2) by (simp add: onmessage_def hasType_def)
  let ?st2 = "initialStream\<lparr>calls := [StatusChange (orLit (getProp s ''message'') StartingDownload),
       StatusChange (orLit (getProp d ''message'') DownloadingFeed)]\<rparr>"
  have open2: "\<not> closed ?st2" by (simp add: initialStream_def)
  have "runStream initialStream (map (\<lambda>e. Message (Some e)) (s # d # ps @ [c])) =
        runStream ?st2 (map (\<lambda>p. Message (Some p)) ps @ [Message (Some c)])"
    by (simp add: s1 s2) (simp add: initialStream_def)
  also have "\<dots> = runStream (?st2\<lparr>calls := calls ?st2 @
            map (\<lambda>p. ProgressCall (getProp p ''loaded'') (getProp p ''total'') (getProp p ''percentage'')) ps\<rparr>)
            [Message (Some c)]"
    using open2 assms(3) by (rule runStream_progress)
  also have "\<dots> = \<lparr>closed = True, promise = Resolved (getProp c ''result''),
            calls = StatusChange (orLit (getProp s ''message'') StartingDownload)
                  # StatusChange (orLit (getProp d ''message'') DownloadingFeed)
                  # map (\<lambda>p. ProgressCall (getProp p ''loaded'') (getProp p ''total'')
                                (getProp p ''percentage'')) ps\<rparr>"
    by (simp add: one initialStream_def settle_def)
  finally show "runStream initialStream (map (\<lambda>e. Message (Some e)) (s # d # ps @ [c])) =
           \<lparr>closed = True, promise = Resolved (getProp c ''result''),
            calls = StatusChange (orLit (getProp s ''message'') StartingDownload)
                  # StatusChange (orLit (getProp d ''message'') DownloadingFeed)
                  # map (\<lambda>p. ProgressCall (getProp p ''loaded'') (getProp p ''total'')
                                (getProp p ''percentage'')) ps\<rparr>" .
qed

theorem onmessage_complete_resolves_witness:
  "hasType startEvent ''start'' \<and> hasType downloadingEvent ''downloading''
   \<and> hasType progressEvent ''progress'' \<and> hasType completeEvent ''complete''
   \<and> promise (runStream initialStream
        [Message (Some startEvent), Message (Some downloadingEvent),
         Message (Some progressEvent), Message (Some completeEvent)])
     = Resolved (Obj [(''site_id'', Num 12345), (''feed_type'', Str ''xml'')])"
  using onmessage_complete_resolves [of startEvent downloadingEvent "[progressEvent]" completeEvent initialStream]
  by (simp add: hasType_def startEvent_def downloadingEvent_def progressEvent_def completeEvent_def)

text \<open>
  C10. A message whose data \<^verbatim>\<open>JSON.parse\<close> rejects, received by an open stream with a
  pending promise, closes the connection and rejects the promise with the
  response-processing error; whatever follows it is no longer handled.
\<close>

theorem unparseable_message_terminal:
  assumes "\<not> closed st" and "promise st = Pending"
  shows "runStream st (Message None # es) =
     st\<lparr>closed := True,
        promise := Rejected (Error (Lit ResponseProcessingFailed) Undefined)\<rparr>"
  using assms
  by (cases es) (simp_all add: onmessage_def failProcessing_def settle_def)

theorem unparseable_message_terminal_witness:
  "\<not> closed initialStream \<and> promise initialStream = Pending
   \<and> runStream initialStream [Message (Some startEvent), Message None, Message (Some completeEvent)] =
     \<lparr>closed = True, promise = Rejected (Error (Lit ResponseProcessingFailed) Undefined),
      calls = [StatusChange (Lit StartingDownload)]\<rparr>"
  using unparseable_message_terminal
    [of "onmessage initialStream (Some startEvent)" "[Message (Some completeEvent)]"]
  by (simp add: initialStream_def onmessage_def startEvent_def orLit_def)

subsection \<open>The upload progress estimator\<close>

text \<open>
  The exponent the rounding works with is the binary exponent of its argument.
\<close>

lemma pow2_nonneg_exp: "0 \<le> e \<Longrightarrow> pow2 e = 2 ^ nat e"
  by (simp add: pow2_def)

lemma pow2_neg_exp: "e \<le> 0 \<Longrightarrow> pow2 e = 1 / 2 ^ nat (- e)"
  by (cases "e = 0") (simp_all add: pow2_def)

lemma floor_bitlen_bounds:
  fixes y :: real
  assumes "1 \<le> y"
  shows "2 ^ nat (bitlen \<lfloor>y\<rfloor> - 1) \<le> y" and "y < 2 ^ nat (bitlen \<lfloor>y\<rfloor>)"
    and "1 \<le> bitlen \<lfloor>y\<rfloor>"
proof -
  have m: "0 < \<lfloor>y\<rfloor>" using assms by linarith
  from bitlen_bounds [OF m]
  have lo: "(2::int) ^ nat (bitlen \<lfloor>y\<rfloor> - 1) \<le> \<lfloor>y\<rfloor>"
    and hi: "\<lfloor>y\<rfloor> < (2::int) ^ nat (bitlen \<lfloor>y\<rfloor>)" by simp_all
  have "real_of_int ((2::int) ^ nat (bitlen \<lfloor>y\<rfloor> - 1)) \<le> real_of_int \<lfloor>y\<rfloor>"
    using lo by (simp only: of_int_le_iff)
  then have "2 ^ nat (bitlen \<lfloor>y\<rfloor> - 1) \<le> real_of_int \<lfloor>y\<rfloor>" by simp
  also have "\<dots> \<le> y" by (rule of_int_floor_le)
  finally show "2 ^ nat (bitlen \<lfloor>y\<rfloor> - 1) \<le> y" .
  have "\<lfloor>y\<rfloor> + 1 \<le> (2::int) ^ nat (bitlen \<lfloor>y\<rfloor>)" using hi by simp
  then have "real_of_int (\<lfloor>y\<rfloor> + 1) \<le> real_of_int ((2::int) ^ nat (bitlen \<lfloor>y\<rfloor>))"
    by (simp only: of_int_le_iff)
  then have u: "real_of_int \<lfloor>y\<rfloor> + 1 \<le> 2 ^ nat (bitlen \<lfloor>y\<rfloor>)" by simp
  have "y < real_of_int \<lfloor>y\<rfloor> + 1" by linarith
  then show "y < 2 ^ nat (bitlen \<lfloor>y\<rfloor>)" using u by (rule less_le_trans)
  show "1 \<le> bitlen \<lfloor>y\<rfloor>"
    using m bitlen_eq_zero_iff [of "\<lfloor>y\<rfloor>"] bitlen_nonneg [of "\<lfloor>y\<rfloor>"] by linarith
qed

lemma binaryExponent_bounds:
  assumes "0 < x"
  shows "pow2 (binaryExponent x) \<le> x \<and> x < pow2 (binaryExponent x + 1)"
proof (cases "1 \<le> x")
  case True
  note b = floor_bitlen_bounds [OF True]
  have e: "binaryExponent x = bitlen \<lfloor>x\<rfloor> - 1" using True by (simp add: binaryExponent_def)
  have "pow2 (binaryExponent x) = 2 ^ nat (bitlen \<lfloor>x\<rfloor> - 1)"
    using b(3) by (simp add: e pow2_def)
  moreover have "pow2 (binaryExponent x + 1) = 2 ^ nat (bitlen \<lfloor>x\<rfloor>)"
    using b(3) by (simp add: e pow2_def)
  ultimately show ?thesis using b(1,2) by simp
next
  case False
  then have x1: "x < 1" by simp
  define y where "y = 1 / x"
  have y1: "1 \<le> y" using assms x1 by (simp add: y_def)
  define k where "k = nat (bitlen \<lfloor>y\<rfloor> - 1)"
  note b = floor_bitlen_bounds [OF y1]
  have kk: "int k = bitlen \<lfloor>y\<rfloor> - 1" using b(3) by (simp add: k_def)
  have k1: "nat (bitlen \<lfloor>y\<rfloor>) = Suc k" using b(3) by (simp add: k_def)
  have lo: "2 ^ k \<le> y" using b(1) by (simp add: k_def)
  have hi: "y < 2 ^ Suc k" using b(2) by (simp add: k1)
  have xlo: "1 / 2 ^ Suc k < x"
  proof -
    have "1 / x < 2 ^ Suc k" using hi by (simp add: y_def)
    then have "1 < 2 ^ Suc k * x" using assms by (simp add: field_simps)
    then show ?thesis by (simp add: field_simps)
  qed
  have xhi: "x \<le> 1 / 2 ^ k"
  proof -
    have "2 ^ k \<le> 1 / x" using lo by (simp add: y_def)
    then have "2 ^ k * x \<le> 1" using assms by (simp add: field_simps)
    then show ?thesis by (simp add: field_simps)
  qed
  show ?thesis
  proof (cases "x * 2 ^ k = 1")
    case True
    then have xe: "x = 1 / 2 ^ k" by (simp add: field_simps)
    have kpos: "0 < k"
    proof (rule ccontr)
      assume "\<not> 0 < k"
      then show False using xe x1 by simp
    qed
    have e: "binaryExponent x = - int k"
      using x1 True kk by (simp add: binaryExponent_def y_def k_def)
    have p1: "pow2 (- int k) = 1 / 2 ^ k" by (simp add: pow2_neg_exp)
    have "- int k + 1 \<le> 0" using kpos by simp
    then have p2: "pow2 (- int k + 1) = 1 / 2 ^ nat (int k - 1)"
      using pow2_neg_exp [of "- int k + 1"] by simp
    have "nat (int k - 1) = k - 1" by simp
    then have p3: "pow2 (- int k + 1) = 1 / 2 ^ (k - 1)" using p2 by simp
    have "(2::real) ^ k = 2 * 2 ^ (k - 1)" using kpos by (cases k) simp_all
    then have "x < 1 / 2 ^ (k - 1)" using xe by (simp add: field_simps)
    then show ?thesis using e p1 p3 xe by simp
  next
    case False
    have e: "binaryExponent x = - int (Suc k)"
      using x1 False kk k1 by (simp add: binaryExponent_def y_def k_def)
    have "nat (int k + 1) = Suc k" by simp
    then have p1: "pow2 (- int (Suc k)) = 1 / 2 ^ Suc k"
      using pow2_neg_exp [of "- int (Suc k)"] by simp
    have p2: "pow2 (- int (Suc k) + 1) = 1 / 2 ^ k"
      using pow2_neg_exp [of "- int k"] by simp
    have "x \<noteq> 1 / 2 ^ k" using False by (auto simp add: field_simps)
    then have "x < 1 / 2 ^ k" using xhi by simp
    then show ?thesis using e p1 p2 xlo by simp
  qed
qed

text \<open>Evaluation of the binary64 rounding on the numbers of the examples.\<close>

lemmas double_eval = roundDouble_def binaryExponent_def compute_bitlen pow2_def roundHalfEven_def
  Let_def


text \<open>
  The percentage of 23 bytes of 40 is 57: the quotient is the binary64 value just below
  0.575.
\<close>

lemma percentage_of_23_of_40: "map_option percentage (snd (onUploadProgress \<lparr>startTime = 0, startLoaded = 0\<rparr> 1000 oddSent))
   = Some (Fin 57)"
  by (simp add: onUploadProgress_def oddSent_def double_eval)






subsection \<open>The hand-over of the result\<close>

text \<open>
  The properties of an object built by assignments are those assigned last, then those
  of the base; for the result of a delta check the reduced object therefore has every
  property of the result.
\<close>

lemma map_of_assignAll:
  "map_of (assignAll base extra) k =
     (case map_of (rev extra) k of Some v \<Rightarrow> Some v | None \<Rightarrow> map_of base k)"
proof (induction extra arbitrary: base)
  case Nil
  show ?case by (simp add: assignAll_def)
next
  case (Cons x extra)
  have "assignAll base (x # extra) = assignAll (AList.update (fst x) (snd x) base) extra"
    by (simp add: assignAll_def)
  then show ?case
    using Cons.IH [of "AList.update (fst x) (snd x) base"]
    by (cases x) (auto simp add: update_conv' map_add_def split: option.splits)
qed

lemma map_of_rev_distinct: "distinct (map fst xs) \<Longrightarrow> map_of (rev xs) = map_of xs"
proof (induction xs)
  case Nil
  show ?case by simp
next
  case (Cons x xs)
  obtain a b where x: "x = (a, b)" by (cases x)
  have ih: "map_of (rev xs) = map_of xs" using Cons by simp
  have na: "map_of xs a = None" using Cons.prems by (simp add: x map_of_eq_None_iff)
  show ?case
  proof
    fix k
    show "map_of (rev (x # xs)) k = map_of (x # xs) k"
    proof (cases "map_of xs k")
      case None
      then show ?thesis by (simp add: x ih map_add_def)
    next
      case (Some v)
      then have "k \<noteq> a" using na by auto
      then show ?thesis using Some by (simp add: x ih map_add_def)
    qed
  qed
qed

lemma getProp_minimalResult_delta:
  assumes "feedType f = Delta" and "distinct (map fst kvs)"
  shows "getProp (minimalResult f (Obj kvs)) k =
     (if k = ''feed_type'' \<and> map_of kvs k = None then Str ''delta'' else getProp (Obj kvs) k)"
  using assms
  by (auto simp add: minimalResult_def map_of_assignAll map_of_rev_distinct feedTypeName_def
        split: option.splits)

lemma minimalResult_xml:
  assumes "feedType f = Xml"
  shows "minimalResult f result =
     Obj [(''site_id'', getProp result ''site_id''),
          (''feed_type'',
             if truthy (getProp result ''feed_type'') then getProp result ''feed_type''
             else Str ''xml''),
          (''syntax'', getProp result ''syntax''),
          (''mandatory'',
             if truthy (getProp result ''mandatory'') then
               Obj [(''total_offers'', getProp (getProp result ''mandatory'') ''total_offers''),
                    (''valid_offers'', getProp (getProp result ''mandatory'') ''valid_offers''),
                    (''problems_count'', getProp (getProp result ''mandatory'') ''problems_count''),
                    (''problems_summary'', getProp (getProp result ''mandatory'') ''problems_summary'')]
             else Undefined),
          (''categories'', getProp result ''categories'')]"
  using assms by (simp add: minimalResult_def assignAll_def feedTypeName_def)

text \<open>
  C6. When the first write of the result fails with a quota error, the hand-over writes
  the reduced object under the same two keys and, if that succeeds, navigates with the
  full result in the state of the navigation; if the reduced write fails too, it shows
  the "too large" text and does not navigate. The reduced object of an XML check holds
  the site id, the feed type, the syntax, the four counters of the mandatory fields and
  the categories of the result, and nothing else; the reduced object of a delta check
  holds every property of the result.
\<close>

theorem handover_quota_fallback:
  assumes "writeBoth setItem st (stringify result) (stringify (feedSource siteNum f)) = (st1, Some e)"
    and "isQuotaError e"
  shows "saveAndNavigate setItem stringify siteNum f result st =
     (case writeBoth setItem st1 (stringify (minimalResult f result))
             (stringify (feedSource siteNum f)) of
        (st2, None) \<Rightarrow>
          \<lparr>storage = st2,
           navigated = Some (Navigate ''/results''
             (Obj [(''state'',
                Obj [(''fullResult'', result), (''feedSource'', feedSource siteNum f)])])),
           errorShown = None\<rparr>
      | (st2, Some secondError) \<Rightarrow>
          \<lparr>storage = st2, navigated = None, errorShown = Some (Lit ResultTooLarge)\<rparr>)
   \<and> (feedType f = Xml \<longrightarrow>
        minimalResult f result =
          Obj [(''site_id'', getProp result ''site_id''),
               (''feed_type'',
                  if truthy (getProp result ''feed_type'') then getProp result ''feed_type''
                  else Str ''xml''),
               (''syntax'', getProp result ''syntax''),
               (''mandatory'',
                  if truthy (getProp result ''mandatory'') then
                    Obj [(''total_offers'', getProp (getProp result ''mandatory'') ''total_offers''),
                         (''valid_offers'', getProp (getProp result ''mandatory'') ''valid_offers''),
                         (''problems_count'',
                            getProp (getProp result ''mandatory'') ''problems_count''),
                         (''problems_summary'',
                            getProp (getProp result ''mandatory'') ''problems_summary'')]
                  else Undefined),
               (''categories'', getProp result ''categories'')])
   \<and> (feedType f = Delta \<longrightarrow>
        (\<forall>kvs k. result = Obj kvs \<and> distinct (map fst kvs) \<longrightarrow>
           getProp (minimalResult f result) k =
             (if k = ''feed_type'' \<and> map_of kvs k = None then Str ''delta''
              else getProp result k)))"
proof (intro conjI impI allI)
  show "saveAndNavigate setItem stringify siteNum f result st =
     (case writeBoth setItem st1 (stringify (minimalResult f result))
             (stringify (feedSource siteNum f)) of
        (st2, None) \<Rightarrow>
          \<lparr>storage = st2,
           navigated = Some (Navigate ''/results''
             (Obj [(''state'',
                Obj [(''fullResult'', result), (''feedSource'', feedSource siteNum f)])])),
           errorShown = None\<rparr>
      | (st2, Some secondError) \<Rightarrow>
          \<lparr>storage = st2, navigated = None, errorShown = Some (Lit ResultTooLarge)\<rparr>)"
    using assms by (simp add: saveAndNavigate_def)
next
  assume "feedType f = Xml"
  then show "minimalResult f result =
          Obj [(''site_id'', getProp result ''site_id''),
               (''feed_type'',
                  if truthy (getProp result ''feed_type'') then getProp result ''feed_type''
                  else Str ''xml''),
               (''syntax'', getProp result ''syntax''),
               (''mandatory'',
                  if truthy (getProp result ''mandatory'') then
                    Obj [(''total_offers'', getProp (getProp result ''mandatory'') ''total_offers''),
                         (''valid_offers'', getProp (getProp result ''mandatory'') ''valid_offers''),
                         (''problems_count'',
                            getProp (getProp result ''mandatory'') ''problems_count''),
                         (''problems_summary'',
                            getProp (getProp result ''mandatory'') ''problems_summary'')]
                  else Undefined),
               (''categories'', getProp result ''categories'')]"
    by (rule minimalResult_xml)
next
  fix kvs k
  assume a: "feedType f = Delta" and b: "result = Obj kvs \<and> distinct (map fst kvs)"
  from b have r: "result = Obj kvs" and d: "distinct (map fst kvs)" by simp_all
  show "getProp (minimalResult f result) k =
             (if k = ''feed_type'' \<and> map_of kvs k = None then Str ''delta''
              else getProp result k)"
    unfolding r by (rule getProp_minimalResult_delta [OF a d])
qed

text \<open>
  With a quota of 170 characters the full result of the XML check does not fit and the
  reduced one does; with a quota of 60 neither fits. The result of the delta check is
  written whole the second time, and its source does not fit either time.
\<close>

lemmas json_eval = natText.simps intText_def quoteText_def escapeChar_def

lemma largeResult_text:
  \<open>jsonText (minimalResult urlXmlForm largeResult)
     = ''{"site_id":12345,"feed_type":"xml","syntax":{"valid":true}}''\<close>
  by (simp add: minimalResult_xml urlXmlForm_def largeResult_def json_eval)

lemma largeResult_length: "length (jsonText largeResult) = 180"
  by (simp add: largeResult_def json_eval)

lemma urlXmlForm_source_text:
  \<open>jsonText (feedSource (Num 12345) urlXmlForm)
     = ''{"siteId":12345,"feedUrl":"http://x/feed.xml","fileName":null,"feedType":"xml"}''\<close>
  by (simp add: feedSource_def urlXmlForm_def feedTypeName_def json_eval)

lemma deltaResult_text:
  \<open>jsonText deltaResult = ''{"feed_type":"delta","parsing":{"rows":3},"summary":{"available":2}}''\<close>
  by (simp add: deltaResult_def json_eval)

lemma deltaResult_minimal:
  "minimalResult deltaFileForm deltaResult =
     Obj [(''site_id'', Undefined), (''feed_type'', Str ''delta''),
          (''parsing'', Obj [(''rows'', Num 3)]), (''summary'', Obj [(''available'', Num 2)])]"
  by (simp add: minimalResult_def deltaFileForm_def deltaResult_def assignAll_def)

lemma deltaResult_minimal_text:
  \<open>jsonText (minimalResult deltaFileForm deltaResult)
     = ''{"feed_type":"delta","parsing":{"rows":3},"summary":{"available":2}}''\<close>
  by (simp add: deltaResult_minimal json_eval)

lemma deltaFileForm_source_text:
  \<open>jsonText (feedSource (Num 12345) deltaFileForm)
     = ''{"siteId":12345,"feedUrl":null,"fileName":"delta.csv","feedType":"delta"}''\<close>
  by (simp add: feedSource_def deltaFileForm_def feedTypeName_def json_eval)

lemma first_write_xml:
  "writeBoth quotaSetItem \<lparr>items = [], quota = q\<rparr> (jsonText largeResult)
      (jsonText (feedSource (Num 12345) urlXmlForm))
   = (if q < 195 then (\<lparr>items = [], quota = q\<rparr>, Some quotaExceeded)
      else if q < 284
        then (\<lparr>items = [(''feedCheckResult'', jsonText largeResult)], quota = q\<rparr>,
              Some quotaExceeded)
      else (\<lparr>items = [(''feedCheckResult'', jsonText largeResult),
                       (''feedSource'', jsonText (feedSource (Num 12345) urlXmlForm))],
             quota = q\<rparr>, None))"
  by (simp add: writeBoth_def quotaSetItem_def storageUsage_def largeResult_length
        urlXmlForm_source_text quotaExceeded_def)

lemma first_write_delta:
  "writeBoth quotaSetItem \<lparr>items = [], quota = 100\<rparr> (jsonText deltaResult)
      (jsonText (feedSource (Num 12345) deltaFileForm))
   = (\<lparr>items = [(''feedCheckResult'', jsonText deltaResult)], quota = 100\<rparr>, Some quotaExceeded)"
  by (simp add: writeBoth_def quotaSetItem_def storageUsage_def deltaResult_text
        deltaFileForm_source_text quotaExceeded_def)

theorem handover_quota_fallback_witness:
  \<open>isQuotaError quotaExceeded
   \<and> saveAndNavigate quotaSetItem jsonText (Num 12345) urlXmlForm largeResult
         \<lparr>items = [], quota = 170\<rparr>
       = \<lparr>storage =
            \<lparr>items =
               [(''feedCheckResult'',
                 ''{"site_id":12345,"feed_type":"xml","syntax":{"valid":true}}''),
                (''feedSource'',
                 ''{"siteId":12345,"feedUrl":"http://x/feed.xml","fileName":null,"feedType":"xml"}'')],
             quota = 170\<rparr>,
          navigated = Some (Navigate ''/results''
            (Obj [(''state'',
               Obj [(''fullResult'', largeResult),
                    (''feedSource'', feedSource (Num 12345) urlXmlForm)])])),
          errorShown = None\<rparr>
   \<and> saveAndNavigate quotaSetItem jsonText (Num 12345) urlXmlForm largeResult
         \<lparr>items = [], quota = 60\<rparr>
       = \<lparr>storage = \<lparr>items = [], quota = 60\<rparr>, navigated = None,
          errorShown = Some (Lit ResultTooLarge)\<rparr>
   \<and> saveAndNavigate quotaSetItem jsonText (Num 12345) deltaFileForm deltaResult
         \<lparr>items = [], quota = 100\<rparr>
       = \<lparr>storage =
            \<lparr>items =
               [(''feedCheckResult'',
                 ''{"feed_type":"delta","parsing":{"rows":3},"summary":{"available":2}}'')],
             quota = 100\<rparr>,
          navigated = None, errorShown = Some (Lit ResultTooLarge)\<rparr>
   \<and> getProp (minimalResult deltaFileForm deltaResult) ''summary''
       = Obj [(''available'', Num 2)]\<close>
proof -
  have q: "isQuotaError quotaExceeded"
    by (simp add: isQuotaError_def quotaExceeded_def)
  have x170: "writeBoth quotaSetItem \<lparr>items = [], quota = 170\<rparr> (jsonText largeResult)
      (jsonText (feedSource (Num 12345) urlXmlForm)) = (\<lparr>items = [], quota = 170\<rparr>, Some quotaExceeded)"
    by (simp add: first_write_xml)
  have x60: "writeBoth quotaSetItem \<lparr>items = [], quota = 60\<rparr> (jsonText largeResult)
      (jsonText (feedSource (Num 12345) urlXmlForm)) = (\<lparr>items = [], quota = 60\<rparr>, Some quotaExceeded)"
    by (simp add: first_write_xml)
  have xml: "feedType urlXmlForm = Xml" and delta: "feedType deltaFileForm = Delta"
    by (simp_all add: urlXmlForm_def deltaFileForm_def)
  have dk: "deltaResult = Obj [(''feed_type'', Str ''delta''), (''parsing'', Obj [(''rows'', Num 3)]),
          (''summary'', Obj [(''available'', Num 2)])]
      \<and> distinct (map fst [(''feed_type'', Str ''delta''), (''parsing'', Obj [(''rows'', Num 3)]),
          (''summary'', Obj [(''available'', Num 2)])])"
    by (simp add: deltaResult_def)
  have w170: "writeBoth quotaSetItem \<lparr>items = [], quota = 170\<rparr>
        (jsonText (minimalResult urlXmlForm largeResult))
        (jsonText (feedSource (Num 12345) urlXmlForm))
      = (\<lparr>items = [(''feedCheckResult'', jsonText (minimalResult urlXmlForm largeResult)),
                      (''feedSource'', jsonText (feedSource (Num 12345) urlXmlForm))],
             quota = 170\<rparr>, None)"
    by (simp add: writeBoth_def quotaSetItem_def storageUsage_def largeResult_text
          urlXmlForm_source_text)
  have w60: "writeBoth quotaSetItem \<lparr>items = [], quota = 60\<rparr>
        (jsonText (minimalResult urlXmlForm largeResult))
        (jsonText (feedSource (Num 12345) urlXmlForm))
      = (\<lparr>items = [], quota = 60\<rparr>, Some quotaExceeded)"
    by (simp add: writeBoth_def quotaSetItem_def storageUsage_def largeResult_text
          urlXmlForm_source_text quotaExceeded_def)
  have w100: "writeBoth quotaSetItem
        \<lparr>items = [(''feedCheckResult'', jsonText deltaResult)], quota = 100\<rparr>
        (jsonText (minimalResult deltaFileForm deltaResult))
        (jsonText (feedSource (Num 12345) deltaFileForm))
      = (\<lparr>items = [(''feedCheckResult'', jsonText deltaResult)], quota = 100\<rparr>,
         Some quotaExceeded)"
    by (simp add: writeBoth_def quotaSetItem_def storageUsage_def deltaResult_text
          deltaResult_minimal_text deltaFileForm_source_text quotaExceeded_def)
  note a = handover_quota_fallback [OF x170 q]
  note b = handover_quota_fallback [OF x60 q]
  note c = handover_quota_fallback [OF first_write_delta q]
  have s: "getProp (minimalResult deltaFileForm deltaResult) ''summary''
       = Obj [(''available'', Num 2)]"
    using c [THEN conjunct2, THEN conjunct2, rule_format, OF delta dk, of "''summary''"]
    by (simp add: deltaResult_def)
  show ?thesis
    using a [THEN conjunct1, unfolded w170] b [THEN conjunct1, unfolded w60]
      c [THEN conjunct1, unfolded w100]
    by (simp add: q s largeResult_text urlXmlForm_source_text deltaResult_text)
qed

subsection \<open>The job poller\<close>





text \<open>Once the timer is cleared no further run takes place.\<close>

lemma runPoller_cleared: "timerCleared p \<Longrightarrow> runPoller jobId p ts = p"
  by (cases ts) simp_all








subsection \<open>The plain endpoints\<close>

lemma notOkError_not_fetch: "\<not> failedToFetch (notOkError r)"
  by (simp add: notOkError_def startsWith_def)

lemma connectionCatch_Error: "connectionCatch l (Error a d) = Error a d"
  by (simp add: connectionCatch_def)

lemma connectionCatch_notOkError: "connectionCatch l (notOkError r) = notOkError r"
  by (simp add: connectionCatch_def notOkError_not_fetch)

text \<open>
  C9, as the specification words it, fails: the deletion of a job that is answered by
  an error 404 in JSON throws, although the body is no HTML page.
\<close>

theorem deleteJob_not_ok_counterexample:
  "\<not> ok jobMissingResponse \<and> \<not> looksLikeHtml (bodyText jobMissingResponse)
   \<and> deleteJob (Inr jobMissingResponse) = Inl (TypeError ''Response body is already used'')
   \<and> deleteJob (Inr (jobMissingResponse\<lparr>hasBody := False\<rparr>))
       = Inl (Error (StatusLine 404 (Val (Str ''Not Found''))) Undefined)
   \<and> deleteJob (Inr jobMissingResponse) \<noteq> Inr ()"
proof -
  have j: "isJson jobMissingResponse" "isJson (jobMissingResponse\<lparr>hasBody := False\<rparr>)"
    by (simp_all add: isJson_def contentTypeOf_def jobMissingResponse_def startsWith_def)
  have h: "\<not> looksLikeHtml (bodyText jobMissingResponse)"
    by (simp add: looksLikeHtml_def jobMissingResponse_def trim_def isWhiteSpace_def startsWith_def codeUnits_def)
  have k: "\<not> ok jobMissingResponse" by (simp add: jobMissingResponse_def)
  show ?thesis
    by (simp add: deleteJob_def deleteJobResponse_def j h k connectionCatch_notOkError)
       (simp add: notOkError_def jobMissingResponse_def statusTextOr_def)
qed

text \<open>
  C9, amended. \<^verbatim>\<open>deleteJob\<close> returns without throwing for every response whose content
  type is not JSON and whose body, trimmed, does not start with an HTML marker, whatever
  its status, and for every OK response whose content type is JSON. It throws the
  gateway error when the content type is not JSON and the trimmed body starts with an
  HTML marker, and it throws an error when the content type is JSON and the response is
  not OK.
\<close>

theorem deleteJob_outcomes:
  "deleteJob (Inr r) =
     (if \<not> isJson r then
        if looksLikeHtml (bodyText r) then Inl (Error (Lit Unavailable502) Undefined) else Inr ()
      else if ok r then Inr ()
      else Inl (notOkError r))"
  by (simp add: deleteJob_def deleteJobResponse_def connectionCatch_Error connectionCatch_notOkError)

text \<open>
  Six methods look for an HTML page under a content type that is not JSON and throw one
  of three fixed texts.
\<close>

lemma html_gateway: "\<not> isJson badGatewayResponse \<and> looksLikeHtml (bodyText badGatewayResponse)
    \<and> looksLikeHtmlLower (bodyText badGatewayResponse)"
  by (simp add: isJson_def contentTypeOf_def badGatewayResponse_def startsWith_def
        looksLikeHtml_def looksLikeHtmlLower_def trim_def isWhiteSpace_def toLowerCase_def lowerUnit_def codeUnits_def)

lemma html_login: "\<not> isJson loginPageResponse \<and> looksLikeHtml (bodyText loginPageResponse)
    \<and> looksLikeHtmlLower (bodyText loginPageResponse)"
  by (simp add: isJson_def contentTypeOf_def loginPageResponse_def startsWith_def
        looksLikeHtml_def looksLikeHtmlLower_def trim_def isWhiteSpace_def toLowerCase_def lowerUnit_def codeUnits_def)

lemma html_page_raises_in_six_methods:
  assumes "\<not> isJson r" and "looksLikeHtml (bodyText r)" and "looksLikeHtmlLower (bodyText r)"
  shows "checkFeed (Inr r) =
           Inl (Error (Lit (if ok r then Unavailable502CheckLogs else HtmlInsteadOfData)) Undefined)"
    and "checkFeedAsync (Inr r) = Inl (Error (Lit Unavailable502CheckLogs) Undefined)"
    and "getJobStatus (Inr r) = Inl (Error (Lit Unavailable502CheckLogs) Undefined)"
    and "deleteJob (Inr r) = Inl (Error (Lit Unavailable502) Undefined)"
    and "checkSyntax (Inr r) = Inl (Error (Lit Unavailable502) Undefined)"
    and "getProblematicOffers (Inr r) = Inl (Error (Lit Unavailable502) Undefined)"
  using assms
  by (simp_all add: checkFeed_def checkFeedResponse_def checkFeedCatch_def
        checkFeedAsync_def checkSyntax_def getProblematicOffers_def jsonEndpoint_def
        jsonEndpointResponse_def getJobStatus_def getJobStatusResponse_def
        deleteJob_def deleteJobResponse_def connectionCatch_Error)

text \<open>
  The white space in front of a page is trimmed whatever it is: a page behind a no-break
  space is an HTML page for \<^verbatim>\<open>deleteJob\<close> and for the result request of the poller.
\<close>

lemma html_behind_no_break_space:
  "\<not> isJson hiddenGatewayResponse \<and> looksLikeHtml (bodyText hiddenGatewayResponse)
   \<and> deleteJob (Inr hiddenGatewayResponse) = Inl (Error (Lit Unavailable502) Undefined)
   \<and> fetchResult (Inr hiddenGatewayResponse) = Rejected (Error (Lit Unavailable502) Undefined)"
proof -
  have a: "\<not> isJson hiddenGatewayResponse"
    by (simp add: isJson_def contentTypeOf_def hiddenGatewayResponse_def startsWith_def)
  have b: "looksLikeHtml (bodyText hiddenGatewayResponse)"
    by (simp add: looksLikeHtml_def hiddenGatewayResponse_def trim_def isWhiteSpace_def
          startsWith_def codeUnits_def)
  show ?thesis
    by (simp add: a b deleteJob_def deleteJobResponse_def fetchResult_def connectionCatch_def)
qed

text \<open>
  C4 at \<^verbatim>\<open>exportToExcel\<close>, the seventh method. The HTML error page of a gateway is
  handed to the JSON parser, whose syntax error is what the caller gets; an HTML page
  served with status 200 is returned as the spreadsheet. \<^verbatim>\<open>checkSyntax\<close> throws the
  fixed gateway text for both.
\<close>

theorem exportToExcel_html_page:
  "\<not> isJson badGatewayResponse \<and> looksLikeHtml (bodyText badGatewayResponse)
   \<and> exportToExcel (Inr badGatewayResponse) = Inl SyntaxError
   \<and> checkSyntax (Inr badGatewayResponse) = Inl (Error (Lit Unavailable502) Undefined)
   \<and> \<not> isJson loginPageResponse \<and> looksLikeHtml (bodyText loginPageResponse)
   \<and> exportToExcel (Inr loginPageResponse) = Inr (bodyText loginPageResponse)
   \<and> checkSyntax (Inr loginPageResponse) = Inl (Error (Lit Unavailable502) Undefined)"
proof -
  have a: "exportToExcel (Inr badGatewayResponse) = Inl SyntaxError"
    by (simp add: exportToExcel_def badGatewayResponse_def)
  have b: "exportToExcel (Inr loginPageResponse) = Inr (bodyText loginPageResponse)"
    by (simp add: exportToExcel_def loginPageResponse_def)
  have c: "checkSyntax (Inr badGatewayResponse) = Inl (Error (Lit Unavailable502) Undefined)"
    using html_gateway
    by (simp add: checkSyntax_def jsonEndpoint_def jsonEndpointResponse_def connectionCatch_Error)
  have d: "checkSyntax (Inr loginPageResponse) = Inl (Error (Lit Unavailable502) Undefined)"
    using html_login
    by (simp add: checkSyntax_def jsonEndpoint_def jsonEndpointResponse_def connectionCatch_Error)
  show ?thesis using html_gateway html_login a b c d by simp
qed

end
